theory Spec2Isabelle
  imports Complex_Main
begin

section \<open>Values of the candidate dashboard API server\<close>

text \<open>
  The server (\<^verbatim>\<open>api_server.py\<close>) reads two published CSV tables with pandas and serves
  filtered views of them as JSON. The embedding keeps the source's names.

  The Python values that the code handles: an \<^verbatim>\<open>int\<close>, a \<^verbatim>\<open>float\<close>, a \<^verbatim>\<open>str\<close>,
  a \<^verbatim>\<open>bool\<close> and \<^verbatim>\<open>None\<close>; the numpy scalars \<^verbatim>\<open>numpy.int64\<close> and \<^verbatim>\<open>numpy.bool_\<close>
  that pandas hands out of a numeric column (\<^verbatim>\<open>numpy.float64\<close> is a subclass of
  \<^verbatim>\<open>float\<close> and is modelled as a float); a pandas \<^verbatim>\<open>Series\<close>, which is what a row
  gives for a label that occurs more than once; and any other object. A missing cell
  is the float NaN, as pandas stores it.

  A float is modelled by the number it holds: a rational (always one that binary64
  represents, as conversions round to it), the two infinities, or NaN. Zero has no
  sign here. Text is modelled over the code points below 256, one \<open>char\<close> each; text
  with other code points is outside this model, but for the one such text that the
  code itself writes: the placeholder \<^verbatim>\<open>'\<emdash>'\<close>, the value \<open>DashC\<close>.
\<close>

datatype pyfloat = Fin rat | PosInf | NegInf | NaN

datatype cell =
    IntC int
  | FloatC pyfloat
  | StrC string
  | BoolC bool
  | NoneC
  | NpIntC int
  | NpBoolC bool
  | SeriesC
  | DashC
  | OtherC

datatype exc =
    KeyError string
  | AttributeError string
  | ValueError string
  | TypeError string
  | OverflowError string
  | FetchError string

text \<open>\<^verbatim>\<open>str(e)\<close> of an exception; a \<^verbatim>\<open>KeyError\<close> prints the repr of its key.\<close>

fun exc_str :: "exc \<Rightarrow> string" where
  "exc_str (KeyError k) = [CHR 0x27] @ k @ [CHR 0x27]"
| "exc_str (AttributeError m) = m"
| "exc_str (ValueError m) = m"
| "exc_str (TypeError m) = m"
| "exc_str (OverflowError m) = m"
| "exc_str (FetchError m) = m"

subsection \<open>Numbers\<close>

text \<open>\<^verbatim>\<open>pd.isna(x)\<close> on a scalar.\<close>

fun isna :: "cell \<Rightarrow> bool" where
  "isna (FloatC NaN) = True"
| "isna NoneC = True"
| "isna _ = False"

text \<open>
  \<^verbatim>\<open>if pd.isna(x):\<close> takes the truth value of the result, which for a \<^verbatim>\<open>Series\<close> raises.
\<close>

definition ambiguous_str :: string where
  "ambiguous_str =
     ''The truth value of a Series is ambiguous. '' @
     ''Use a.empty, a.bool(), a.item(), a.any() or a.all().''"

definition if_isna :: "cell \<Rightarrow> exc + bool" where
  "if_isna x = (case x of SeriesC \<Rightarrow> Inl (ValueError ambiguous_str) | _ \<Rightarrow> Inr (isna x))"

text \<open>
  \<^verbatim>\<open>isinstance(x, (int, float))\<close>: \<^verbatim>\<open>bool\<close> is a subclass of \<^verbatim>\<open>int\<close>;
  \<^verbatim>\<open>numpy.int64\<close> and \<^verbatim>\<open>numpy.bool_\<close> are subclasses of neither.
\<close>

fun is_int_or_float :: "cell \<Rightarrow> bool" where
  "is_int_or_float (IntC _) = True"
| "is_int_or_float (FloatC _) = True"
| "is_int_or_float (BoolC _) = True"
| "is_int_or_float _ = False"

text \<open>The number an int, float or bool stands for, exactly (as comparisons take it).\<close>

fun number_of :: "cell \<Rightarrow> pyfloat" where
  "number_of (IntC n) = Fin (of_int n)"
| "number_of (FloatC f) = f"
| "number_of (BoolC b) = Fin (if b then 1 else 0)"
| "number_of _ = NaN"

text \<open>Python's \<^verbatim>\<open><\<close> and \<^verbatim>\<open><=\<close> on numbers: every comparison with NaN is false.\<close>

fun fl_less :: "pyfloat \<Rightarrow> pyfloat \<Rightarrow> bool" where
  "fl_less NaN _ = False"
| "fl_less _ NaN = False"
| "fl_less (Fin a) (Fin b) = (a < b)"
| "fl_less NegInf NegInf = False"
| "fl_less NegInf _ = True"
| "fl_less _ NegInf = False"
| "fl_less PosInf _ = False"
| "fl_less _ PosInf = True"

fun fl_le :: "pyfloat \<Rightarrow> pyfloat \<Rightarrow> bool" where
  "fl_le NaN _ = False"
| "fl_le _ NaN = False"
| "fl_le (Fin a) (Fin b) = (a \<le> b)"
| "fl_le NegInf _ = True"
| "fl_le _ PosInf = True"
| "fl_le _ NegInf = False"
| "fl_le PosInf _ = False"

fun fl_neg :: "pyfloat \<Rightarrow> pyfloat" where
  "fl_neg (Fin x) = Fin (- x)"
| "fl_neg PosInf = NegInf"
| "fl_neg NegInf = PosInf"
| "fl_neg NaN = NaN"

subsection \<open>Rounding to binary64\<close>

text \<open>
  \<open>bitlen n\<close> is the number of binary digits of a positive \<open>n\<close>; \<open>pow2\<close> and \<open>pow10\<close>
  are integer powers as rationals.
\<close>

function bitlen :: "int \<Rightarrow> int" where
  "bitlen n = (if n \<le> 0 then 0 else 1 + bitlen (n div 2))"
  by pat_completeness auto
termination
  by (relation "measure nat") auto

declare bitlen.simps [simp del]

definition pow2 :: "int \<Rightarrow> rat" where
  "pow2 e = (if 0 \<le> e then 2 ^ nat e else 1 / 2 ^ nat (- e))"

definition pow10 :: "int \<Rightarrow> rat" where
  "pow10 e = (if 0 \<le> e then 10 ^ nat e else 1 / 10 ^ nat (- e))"

text \<open>\<open>num / den\<close> is at least \<open>2\<close> to the \<open>e\<close>, in integers.\<close>

definition ge_pow2 :: "int \<Rightarrow> int \<Rightarrow> int \<Rightarrow> bool" where
  "ge_pow2 num den e \<longleftrightarrow>
     (if 0 \<le> e then den * 2 ^ nat e \<le> num else den \<le> num * 2 ^ nat (- e))"

text \<open>
  The binary64 value nearest to \<open>num / den\<close> (\<open>num\<close> not negative, \<open>den\<close> positive),
  ties to even: \<open>e\<close> is the binary exponent of the quotient, \<open>q\<close> the exponent of the
  last place of its 53-digit significand (not below that of the subnormals), \<open>m\<close> the
  quotient in units of that place, rounded. A value of \<open>2\<close> to the \<open>1024\<close> or more is
  out of range.
\<close>

definition round_ratio :: "int \<Rightarrow> int \<Rightarrow> pyfloat" where
  "round_ratio num den =
     (if num = 0 then Fin 0
      else
        let e0 = bitlen num - bitlen den;
            e = (if ge_pow2 num den e0 then e0 else e0 - 1);
            q = max e (- 1022) - 52;
            a = (if 0 \<le> q then num else num * 2 ^ nat (- q));
            b = (if 0 \<le> q then den * 2 ^ nat q else den);
            f = a div b;
            r = a mod b;
            m = (if 2 * r < b then f
                 else if b < 2 * r then f + 1
                 else if even f then f else f + 1);
            x = of_int m * pow2 q
        in if pow2 1024 \<le> x then PosInf else Fin x)"

text \<open>
  \<^verbatim>\<open>float(n)\<close> for an int rounds in the same way and raises \<^verbatim>\<open>OverflowError\<close> when the
  result is out of range; \<^verbatim>\<open>float(x)\<close> of a float is \<open>x\<close>, of a bool \<open>0.0\<close> or \<open>1.0\<close>.
\<close>

definition float_of_int :: "int \<Rightarrow> exc + pyfloat" where
  "float_of_int n =
     (case round_ratio \<bar>n\<bar> 1 of
        Fin x \<Rightarrow> Inr (Fin (if n < 0 then - x else x))
      | _ \<Rightarrow> Inl (OverflowError ''int too large to convert to float''))"

fun to_float :: "cell \<Rightarrow> exc + pyfloat" where
  "to_float (IntC n) = float_of_int n"
| "to_float (FloatC f) = Inr f"
| "to_float (BoolC b) = Inr (Fin (if b then 1 else 0))"
| "to_float _ = Inl (TypeError ''float() argument must be a string or a real number'')"

subsection \<open>Strings\<close>

text \<open>
  The characters \<^verbatim>\<open>str.strip()\<close> and \<^verbatim>\<open>float()\<close> treat as whitespace, among the code
  points below 256: the ASCII ones, NEL (\<open>0x85\<close>) and the no-break space (\<open>0xA0\<close>).
\<close>

definition is_space :: "char \<Rightarrow> bool" where
  "is_space c \<longleftrightarrow>
     c \<in> set [CHR 0x20, CHR 0x09, CHR 0x0A, CHR 0x0B, CHR 0x0C, CHR 0x0D,
              CHR 0x1C, CHR 0x1D, CHR 0x1E, CHR 0x1F, CHR 0x85, CHR 0xA0]"

definition strip :: "string \<Rightarrow> string" where
  "strip s = rev (dropWhile is_space (rev (dropWhile is_space s)))"

text \<open>
  \<^verbatim>\<open>str.lower()\<close> below 256: \<open>A\<close> to \<open>Z\<close>, and the letters \<open>0xC0\<close> to \<open>0xDE\<close> other
  than the multiplication sign \<open>0xD7\<close>, move up by 32.
\<close>

definition lower_char :: "char \<Rightarrow> char" where
  "lower_char c =
     (let n = (of_char c :: int)
      in if (65 \<le> n \<and> n \<le> 90) \<or> (192 \<le> n \<and> n \<le> 222 \<and> n \<noteq> 215)
         then char_of (n + 32) else c)"

definition lower :: "string \<Rightarrow> string" where
  "lower s = map lower_char s"

text \<open>\<^verbatim>\<open>s.replace(c, '')\<close> for a one-character pattern.\<close>

definition remove_char :: "char \<Rightarrow> string \<Rightarrow> string" where
  "remove_char c s = filter (\<lambda>d. d \<noteq> c) s"

subsection \<open>Reading a float from text\<close>

text \<open>
  \<^verbatim>\<open>float(s)\<close> for a string: surrounding whitespace is dropped; an underscore is allowed
  only between two digits; then an optional sign, and either \<^verbatim>\<open>inf\<close>, \<^verbatim>\<open>infinity\<close>,
  \<^verbatim>\<open>nan\<close> (in any letter case) or a decimal number with an optional fraction and an
  optional exponent, rounded to binary64 (infinite when out of range). Anything else
  raises \<^verbatim>\<open>ValueError\<close>, here \<open>None\<close>. Below 256 the only decimal digits are \<open>0\<close> to \<open>9\<close>.
\<close>

definition is_digit :: "char \<Rightarrow> bool" where
  "is_digit c \<longleftrightarrow> c \<in> set ''0123456789''"

definition digit_val :: "char \<Rightarrow> int" where
  "digit_val c =
     (case map_of (zip ''0123456789'' [0, 1, 2, 3, 4, 5, 6, 7, 8, 9]) c of
        None \<Rightarrow> 0
      | Some d \<Rightarrow> d)"

definition digits_val :: "string \<Rightarrow> int" where
  "digits_val ds = foldl (\<lambda>a c. 10 * a + digit_val c) 0 ds"

text \<open>An underscore must follow a digit and precede a digit; \<open>p\<close> is the previous character.\<close>

fun underscores_ok :: "char \<Rightarrow> string \<Rightarrow> bool" where
  "underscores_ok p [] = (p \<noteq> CHR ''_'')"
| "underscores_ok p (c # cs) =
     ((if c = CHR ''_'' then is_digit p
       else if p = CHR ''_'' then is_digit c
       else True) \<and> underscores_ok c cs)"

definition split_sign :: "string \<Rightarrow> bool \<times> string" where
  "split_sign s =
     (case s of
        [] \<Rightarrow> (False, [])
      | c # r \<Rightarrow>
          if c = CHR ''-'' then (True, r)
          else if c = CHR ''+'' then (False, r)
          else (False, s))"

text \<open>The exponent part: empty, or \<^verbatim>\<open>e\<close>/\<^verbatim>\<open>E\<close>, an optional sign and at least one digit.\<close>

definition parse_exponent :: "string \<Rightarrow> int option" where
  "parse_exponent s =
     (case s of
        [] \<Rightarrow> Some 0
      | c # r \<Rightarrow>
          if c = CHR ''e'' \<or> c = CHR ''E'' then
            (let (neg, ds) = split_sign r in
             if ds \<noteq> [] \<and> list_all is_digit ds then
               Some (if neg then - digits_val ds else digits_val ds)
             else None)
          else None)"

text \<open>The float nearest to \<open>m\<close> times \<open>10\<close> to the \<open>e\<close>, for \<open>m\<close> not negative.\<close>

definition round_decimal :: "int \<Rightarrow> int \<Rightarrow> pyfloat" where
  "round_decimal m e =
     (if 0 \<le> e then round_ratio (m * 10 ^ nat e) 1 else round_ratio m (10 ^ nat (- e)))"

definition parse_decimal :: "string \<Rightarrow> pyfloat option" where
  "parse_decimal s =
     (let ip = takeWhile is_digit s;
          r1 = dropWhile is_digit s;
          (fp, r2) =
            (case r1 of
               [] \<Rightarrow> ([], [])
             | c # r \<Rightarrow>
                 if c = CHR ''.'' then (takeWhile is_digit r, dropWhile is_digit r)
                 else ([], r1))
      in if ip = [] \<and> fp = [] then None
         else (case parse_exponent r2 of
                 None \<Rightarrow> None
               | Some e \<Rightarrow> Some (round_decimal (digits_val (ip @ fp)) (e - int (length fp)))))"

definition py_float :: "string \<Rightarrow> pyfloat option" where
  "py_float s =
     (let t = strip s in
      if \<not> underscores_ok CHR '' '' t then None
      else
        let (neg, body) = split_sign (remove_char CHR ''_'' t);
            w = lower body
        in if w = ''inf'' \<or> w = ''infinity'' then Some (if neg then NegInf else PosInf)
           else if w = ''nan'' then Some NaN
           else (case parse_decimal body of
                   None \<Rightarrow> None
                 | Some f \<Rightarrow> Some (if neg then fl_neg f else f)))"

subsection \<open>The row normalizer\<close>

text \<open>
  \<^verbatim>\<open>parse_salary(salary_value)\<close>: a missing value gives the int \<open>0\<close>; an int or float is
  returned through \<^verbatim>\<open>float(...)\<close>; a string has \<^verbatim>\<open>$\<close> and commas removed, is stripped and
  read with \<^verbatim>\<open>float\<close>, giving \<open>0\<close> on \<^verbatim>\<open>ValueError\<close>; any other value gives \<open>0\<close>. The
  function raises where \<^verbatim>\<open>if pd.isna(...)\<close> or \<^verbatim>\<open>float(...)\<close> on an int does.
\<close>

definition parse_salary :: "cell \<Rightarrow> exc + cell" where
  "parse_salary v =
     (case if_isna v of
        Inl e \<Rightarrow> Inl e
      | Inr missing \<Rightarrow>
          if missing then Inr (IntC 0)
          else if is_int_or_float v then
            (case to_float v of Inl e \<Rightarrow> Inl e | Inr f \<Rightarrow> Inr (FloatC f))
          else (case v of
                  StrC s \<Rightarrow>
                    (let cleaned = strip (remove_char CHR '','' (remove_char CHR ''$'' s)) in
                     case py_float cleaned of
                       Some f \<Rightarrow> Inr (FloatC f)
                     | None \<Rightarrow> Inr (IntC 0))
                | _ \<Rightarrow> Inr (IntC 0)))"

text \<open>A value is a non-negative number: an int or float that is not below zero (NaN is not).\<close>

definition cell_nonneg :: "cell \<Rightarrow> bool" where
  "cell_nonneg c \<longleftrightarrow> is_int_or_float c \<and> fl_le (Fin 0) (number_of c)"

section \<open>Tables\<close>

text \<open>
  A pandas \<^verbatim>\<open>DataFrame\<close> as the server uses it: the column labels and the rows, each row
  a list of cells in column order. A row shorter than the label list reads as missing
  (NaN) beyond its end, as \<^verbatim>\<open>read_csv\<close> pads it.
\<close>

record frame =
  columns :: "string list"
  rows :: "cell list list"

text \<open>\<^verbatim>\<open>pd.DataFrame()\<close> and \<^verbatim>\<open>df.empty\<close> (some axis has length zero).\<close>

definition empty_frame :: frame where
  "empty_frame = \<lparr>columns = [], rows = []\<rparr>"

definition df_empty :: "frame \<Rightarrow> bool" where
  "df_empty df \<longleftrightarrow> columns df = [] \<or> rows df = []"

fun index_of :: "'a \<Rightarrow> 'a list \<Rightarrow> nat option" where
  "index_of x [] = None"
| "index_of x (y # ys) = (if x = y then Some 0 else map_option Suc (index_of x ys))"

text \<open>
  Where a label stands among the columns. \<^verbatim>\<open>read_csv\<close> gives every column its own
  label, but trimming the labels can make two of them equal; a label that occurs more
  than once selects a table from a table and a \<^verbatim>\<open>Series\<close> from a row.
\<close>

datatype label_pos = Absent | Unique nat | Repeated

definition lookup :: "string list \<Rightarrow> string \<Rightarrow> label_pos" where
  "lookup cols name =
     (case index_of name cols of
        None \<Rightarrow> Absent
      | Some i \<Rightarrow> if 1 < count_list cols name then Repeated else Unique i)"

definition cell_at :: "cell list \<Rightarrow> nat \<Rightarrow> cell" where
  "cell_at r i = (if i < length r then r ! i else FloatC NaN)"

definition set_cell :: "cell list \<Rightarrow> nat \<Rightarrow> cell \<Rightarrow> cell list" where
  "set_cell r i v =
     (if i < length r then r[i := v]
      else r @ replicate (i - length r) (FloatC NaN) @ [v])"

text \<open>
  \<^verbatim>\<open>df[name]\<close> used as one column: the cells, or \<^verbatim>\<open>KeyError\<close>. With a repeated label
  it is not a column; the classifier never meets that for \<^verbatim>\<open>Status\<close>, because
  \<^verbatim>\<open>load_data\<close> has raised on it, and the lookup is an error here.
\<close>

definition column :: "frame \<Rightarrow> string \<Rightarrow> exc + cell list" where
  "column df name =
     (case lookup (columns df) name of
        Absent \<Rightarrow> Inl (KeyError name)
      | Unique i \<Rightarrow> Inr (map (\<lambda>r. cell_at r i) (rows df))
      | Repeated \<Rightarrow> Inl (TypeError (name @ '' is not a single column'')))"

text \<open>\<^verbatim>\<open>row.get(name, default)\<close> and \<^verbatim>\<open>row[name]\<close> on a row.\<close>

definition row_get :: "string list \<Rightarrow> cell list \<Rightarrow> string \<Rightarrow> cell \<Rightarrow> cell" where
  "row_get cols r name d =
     (case lookup cols name of
        Absent \<Rightarrow> d
      | Unique i \<Rightarrow> cell_at r i
      | Repeated \<Rightarrow> SeriesC)"

definition row_item :: "string list \<Rightarrow> cell list \<Rightarrow> string \<Rightarrow> exc + cell" where
  "row_item cols r name =
     (case lookup cols name of
        Absent \<Rightarrow> Inl (KeyError name)
      | Unique i \<Rightarrow> Inr (cell_at r i)
      | Repeated \<Rightarrow> Inr SeriesC)"

text \<open>\<^verbatim>\<open>df[mask]\<close> for a boolean mask, and \<^verbatim>\<open>len(df)\<close>.\<close>

definition select :: "bool list \<Rightarrow> frame \<Rightarrow> frame" where
  "select bs df = df\<lparr>rows := map snd (filter fst (zip bs (rows df)))\<rparr>"

definition len :: "frame \<Rightarrow> nat" where
  "len df = length (rows df)"

text \<open>\<^verbatim>\<open>df.dropna(how="all")\<close> and \<^verbatim>\<open>df.fillna("")\<close>.\<close>

definition dropna_all :: "frame \<Rightarrow> frame" where
  "dropna_all df = df\<lparr>rows := filter (\<lambda>r. \<not> list_all isna r) (rows df)\<rparr>"

definition fillna_empty :: "frame \<Rightarrow> frame" where
  "fillna_empty df =
     df\<lparr>rows := map (map (\<lambda>c. if isna c then StrC [] else c)) (rows df)\<rparr>"

text \<open>Keeping the columns whose label satisfies \<open>P\<close>; rows are padded to the label list first.\<close>

definition pad :: "nat \<Rightarrow> cell list \<Rightarrow> cell list" where
  "pad n r = take n (r @ replicate (n - length r) (FloatC NaN))"

definition keep_columns :: "(string \<Rightarrow> bool) \<Rightarrow> frame \<Rightarrow> frame" where
  "keep_columns P df =
     \<lparr>columns = filter P (columns df),
      rows = map (\<lambda>r. map snd (filter (\<lambda>p. P (fst p)) (zip (columns df) (pad (length (columns df)) r))))
                 (rows df)\<rparr>"

text \<open>Writing a column back: \<^verbatim>\<open>df[name] = f(df[name])\<close> cell by cell.\<close>

definition map_column :: "nat \<Rightarrow> (cell \<Rightarrow> cell) \<Rightarrow> frame \<Rightarrow> frame" where
  "map_column i f df = df\<lparr>rows := map (\<lambda>r. set_cell r i (f (cell_at r i))) (rows df)\<rparr>"

subsection \<open>Column types and the values a row hands out\<close>

text \<open>
  The dtype of a column, read off its cells: \<^verbatim>\<open>int64\<close> when all are ints,
  \<^verbatim>\<open>float64\<close> when all are floats, \<^verbatim>\<open>bool\<close> when all are bools, \<^verbatim>\<open>object\<close> otherwise
  (and for a column without cells).
\<close>

datatype dtype = DInt | DFloat | DBool | DObject

definition is_int_cell :: "cell \<Rightarrow> bool" where
  "is_int_cell c = (case c of IntC n \<Rightarrow> True | _ \<Rightarrow> False)"

definition is_float_cell :: "cell \<Rightarrow> bool" where
  "is_float_cell c = (case c of FloatC f \<Rightarrow> True | _ \<Rightarrow> False)"

definition is_bool_cell :: "cell \<Rightarrow> bool" where
  "is_bool_cell c = (case c of BoolC b \<Rightarrow> True | _ \<Rightarrow> False)"

definition col_dtype :: "cell list \<Rightarrow> dtype" where
  "col_dtype cs =
     (if cs = [] then DObject
      else if list_all is_int_cell cs then DInt
      else if list_all is_float_cell cs then DFloat
      else if list_all is_bool_cell cs then DBool
      else DObject)"

definition dtypes :: "frame \<Rightarrow> dtype list" where
  "dtypes df =
     map (\<lambda>i. col_dtype (map (\<lambda>r. cell_at r i) (rows df))) [0..<length (columns df)]"

text \<open>
  The dtype that holds every column of a table at once (\<^verbatim>\<open>df.values\<close>): the columns'
  own when they agree, \<^verbatim>\<open>float64\<close> for ints with floats, \<^verbatim>\<open>object\<close> otherwise.
\<close>

definition common_dtype :: "dtype list \<Rightarrow> dtype" where
  "common_dtype ds =
     (if ds = [] then DObject
      else if list_all (\<lambda>d. d = DInt) ds then DInt
      else if list_all (\<lambda>d. d = DInt \<or> d = DFloat) ds then DFloat
      else if list_all (\<lambda>d. d = DBool) ds then DBool
      else DObject)"

text \<open>
  A cell as a value of a given dtype: in an \<^verbatim>\<open>int64\<close> array an int is a
  \<^verbatim>\<open>numpy.int64\<close>, in a \<^verbatim>\<open>bool\<close> array a bool is a \<^verbatim>\<open>numpy.bool_\<close>, in a
  \<^verbatim>\<open>float64\<close> array an int has become a float; in an \<^verbatim>\<open>object\<close> array the cell
  is the Python value itself.
\<close>

definition int64_as_float :: "int \<Rightarrow> pyfloat" where
  "int64_as_float n =
     (case float_of_int n of Inr f \<Rightarrow> f | Inl e \<Rightarrow> if n < 0 then NegInf else PosInf)"

definition as_dtype :: "dtype \<Rightarrow> cell \<Rightarrow> cell" where
  "as_dtype d c =
     (case d of
        DInt \<Rightarrow> (case c of IntC n \<Rightarrow> NpIntC n | _ \<Rightarrow> c)
      | DFloat \<Rightarrow> (case c of IntC n \<Rightarrow> FloatC (int64_as_float n) | _ \<Rightarrow> c)
      | DBool \<Rightarrow> (case c of BoolC b \<Rightarrow> NpBoolC b | _ \<Rightarrow> c)
      | DObject \<Rightarrow> c)"

text \<open>
  The rows of \<^verbatim>\<open>df.iterrows()\<close>: every cell as a value of the common dtype \<open>d\<close> of
  the table. \<^verbatim>\<open>df.iloc[0]\<close> keeps each column's own dtype \<open>ds\<close>.
\<close>

definition iterrows :: "dtype \<Rightarrow> frame \<Rightarrow> cell list list" where
  "iterrows d df = map (\<lambda>r. map (as_dtype d) (pad (length (columns df)) r)) (rows df)"

definition iloc_row :: "dtype list \<Rightarrow> cell list \<Rightarrow> cell list" where
  "iloc_row ds r = map (\<lambda>(d, c). as_dtype d c) (zip ds (pad (length ds) r))"

section \<open>The outside world\<close>

text \<open>
  What the server takes from outside on one request: the outcome of each of the two
  \<^verbatim>\<open>pd.read_csv\<close> calls (a parsed table, or the exception it raised), and Python's
  \<^verbatim>\<open>str()\<close> on the values that are not strings, which \<^verbatim>\<open>astype(str)\<close> applies. The
  endpoints that encode table cells as JSON also take the name of a value's type, which
  the encoder prints when it rejects the value.
\<close>

record env =
  read_main :: "exc + frame"
  read_jobs :: "exc + frame"
  py_str :: "cell \<Rightarrow> string"

record pyenv = env +
  type_name :: "cell \<Rightarrow> string"

section \<open>Exceptions and responses\<close>

definition bind_exc :: "exc + 'a \<Rightarrow> ('a \<Rightarrow> exc + 'b) \<Rightarrow> exc + 'b" where
  "bind_exc m f = (case m of Inl e \<Rightarrow> Inl e | Inr x \<Rightarrow> f x)"

text \<open>Running a loop body over a list: the first exception ends the loop.\<close>

fun collect :: "('a \<Rightarrow> exc + 'b) \<Rightarrow> 'a list \<Rightarrow> exc + 'b list" where
  "collect f [] = Inr []"
| "collect f (x # xs) =
     (case f x of
        Inl e \<Rightarrow> Inl e
      | Inr y \<Rightarrow> (case collect f xs of Inl e \<Rightarrow> Inl e | Inr ys \<Rightarrow> Inr (y # ys)))"

record candidate =
  c_name :: cell
  c_training_site :: cell
  c_location :: cell
  c_week :: cell
  c_level :: cell
  c_salary :: cell

record position =
  job_title :: cell
  account :: cell
  city :: cell
  state :: cell
  vertical :: cell
  salary :: cell

record metrics =
  total_candidates :: nat
  ready_for_placement :: nat
  in_training :: nat
  offer_pending :: nat
  open_jobs :: nat
  data_source :: string

record scores =
  qbr_score :: int
  assessment_score :: int
  performance_score :: int
  confidence_score :: int
  skill_ranking :: string

text \<open>The JSON bodies of the endpoints; a response is a body and an HTTP status.\<close>

datatype body =
    ErrorBody string
  | MetricsBody metrics
  | CandidatesBody "candidate list"
  | ProfileBody candidate scores
  | PositionsBody "position list"

type_synonym response = "body \<times> nat"

text \<open>
  The \<^verbatim>\<open>try ... except Exception as e: return jsonify({'error': str(e)}), 500\<close> around
  every endpoint body.
\<close>

definition catch_all :: "exc + response \<Rightarrow> response" where
  "catch_all m = (case m of Inl e \<Rightarrow> (ErrorBody (exc_str e), 500) | Inr r \<Rightarrow> r)"

text \<open>
  \<^verbatim>\<open>jsonify\<close>: the encoder takes strings, ints, floats, bools and \<^verbatim>\<open>None\<close>, and
  raises \<^verbatim>\<open>TypeError\<close> at the first value of another type that it meets. It writes
  the keys of an object in sorted order.
\<close>

fun json_ok :: "cell \<Rightarrow> bool" where
  "json_ok (IntC _) = True"
| "json_ok (FloatC _) = True"
| "json_ok (StrC _) = True"
| "json_ok (BoolC _) = True"
| "json_ok NoneC = True"
| "json_ok DashC = True"
| "json_ok _ = False"

definition jsonify_values :: "pyenv \<Rightarrow> cell list \<Rightarrow> exc + unit" where
  "jsonify_values w vs =
     (case find (\<lambda>c. \<not> json_ok c) vs of
        None \<Rightarrow> Inr ()
      | Some c \<Rightarrow>
          Inl (TypeError (''Object of type '' @ type_name w c @ '' is not JSON serializable'')))"

definition candidate_values :: "candidate \<Rightarrow> cell list" where
  "candidate_values c =
     [c_level c, c_location c, c_name c, c_salary c, c_training_site c, c_week c]"

definition position_values :: "position \<Rightarrow> cell list" where
  "position_values p = [account p, city p, job_title p, salary p, state p, vertical p]"

text \<open>The placeholder \<^verbatim>\<open>'\<emdash>'\<close> (an em dash).\<close>

definition placeholder :: cell where
  "placeholder = DashC"

section \<open>The table loaders\<close>

text \<open>
  \<^verbatim>\<open>df["Status"].astype(str).str.strip().str.lower()\<close> on one cell: a string is kept,
  any other value goes through \<^verbatim>\<open>str()\<close>.
\<close>

definition astype_str :: "(cell \<Rightarrow> string) \<Rightarrow> cell \<Rightarrow> string" where
  "astype_str to_str c = (case c of StrC s \<Rightarrow> s | _ \<Rightarrow> to_str c)"

definition normalize_status :: "(cell \<Rightarrow> string) \<Rightarrow> cell \<Rightarrow> cell" where
  "normalize_status to_str c = StrC (lower (strip (astype_str to_str c)))"

definition attribute_error_str :: string where
  "attribute_error_str =
     [CHR 0x27] @ ''DataFrame'' @ [CHR 0x27] @ '' object has no attribute '' @
     [CHR 0x27] @ ''str'' @ [CHR 0x27]"

text \<open>
  \<^verbatim>\<open>load_data()\<close>. Only \<^verbatim>\<open>pd.read_csv\<close> is inside the \<^verbatim>\<open>try\<close>: its failure gives
  the empty table and the label \<^verbatim>\<open>"Error"\<close>. The steps after it are unguarded:
  \<^verbatim>\<open>df["Status"]\<close> raises \<^verbatim>\<open>KeyError\<close> when no trimmed label is \<^verbatim>\<open>Status\<close>, and is a
  \<^verbatim>\<open>DataFrame\<close> without \<^verbatim>\<open>.str\<close> (\<^verbatim>\<open>AttributeError\<close>) when several are.
\<close>

definition load_data :: "'a env_scheme \<Rightarrow> exc + (frame \<times> string)" where
  "load_data w =
     (case read_main w of
        Inl e \<Rightarrow> Inr (empty_frame, ''Error'')
      | Inr df0 \<Rightarrow>
          (let df1 = dropna_all df0;
               df2 = df1\<lparr>columns := map strip (columns df1)\<rparr>
           in case lookup (columns df2) ''Status'' of
                Absent \<Rightarrow> Inl (KeyError ''Status'')
              | Repeated \<Rightarrow> Inl (AttributeError attribute_error_str)
              | Unique i \<Rightarrow>
                  Inr (map_column i (normalize_status (py_str w)) df2, ''Google Sheets'')))"

text \<open>
  \<^verbatim>\<open>load_jobs_data()\<close>: the whole body is inside the \<^verbatim>\<open>try\<close>. Columns whose label
  starts with \<^verbatim>\<open>Unnamed\<close> and the columns \<^verbatim>\<open>JV Link\<close> and \<^verbatim>\<open>JV ID\<close> are dropped, then
  the all-missing rows, and the remaining missing cells become the empty string.
\<close>

definition starts_with :: "string \<Rightarrow> string \<Rightarrow> bool" where
  "starts_with pre s \<longleftrightarrow> take (length pre) s = pre"

definition load_jobs_data :: "'a env_scheme \<Rightarrow> frame" where
  "load_jobs_data w =
     (case read_jobs w of
        Inl e \<Rightarrow> empty_frame
      | Inr j0 \<Rightarrow>
          (let j1 = keep_columns (\<lambda>c. \<not> starts_with ''Unnamed'' c) j0;
               j2 = keep_columns (\<lambda>c. c \<notin> set [''JV Link'', ''JV ID'']) j1
           in fillna_empty (dropna_all j2)))"

section \<open>The candidate classifier\<close>

text \<open>
  The masks of the source. \<^verbatim>\<open>isinstance(x, (int, float)) and x > 6\<close> and the same with
  \<^verbatim>\<open>x <= 6\<close> on a week cell (\<^verbatim>\<open>apply\<close> passes Python values); \<^verbatim>\<open>isin\<close> on a status
  cell.
\<close>

definition week_gt6 :: "cell \<Rightarrow> bool" where
  "week_gt6 x \<longleftrightarrow> is_int_or_float x \<and> fl_less (Fin 6) (number_of x)"

definition week_le6 :: "cell \<Rightarrow> bool" where
  "week_le6 x \<longleftrightarrow> is_int_or_float x \<and> fl_le (number_of x) (Fin 6)"

definition isin :: "cell \<Rightarrow> string list \<Rightarrow> bool" where
  "isin c vs \<longleftrightarrow> c \<in> set (map StrC vs)"

definition non_identified_statuses :: "string list" where
  "non_identified_statuses = [''free agent discussing opportunity'', ''unassigned'', ''training'']"

definition placed_statuses :: "string list" where
  "placed_statuses = [''position identified'', ''offer pending'', ''offer accepted'']"

text \<open>
  \<^verbatim>\<open>df["Week"].apply(test)\<close> as a row mask. When the label \<^verbatim>\<open>Week\<close> is repeated,
  \<^verbatim>\<open>apply\<close> runs the test on whole columns, none of which is an int or float, and the
  mask selects no row.
\<close>

definition week_mask :: "frame \<Rightarrow> (cell \<Rightarrow> bool) \<Rightarrow> exc + bool list" where
  "week_mask df P =
     (case lookup (columns df) ''Week'' of
        Absent \<Rightarrow> Inl (KeyError ''Week'')
      | Unique j \<Rightarrow> Inr (map (\<lambda>r. P (cell_at r j)) (rows df))
      | Repeated \<Rightarrow> Inr (map (\<lambda>r. False) (rows df)))"

text \<open>The bucket sub-tables, each as the source computes it from \<^verbatim>\<open>df\<close>.\<close>

definition offer_pending_rows :: "frame \<Rightarrow> exc + frame" where
  "offer_pending_rows df =
     bind_exc (column df ''Status'') (\<lambda>st.
       Inr (select (map (\<lambda>c. c = StrC ''offer pending'') st) df))"

definition offer_accepted_rows :: "frame \<Rightarrow> exc + frame" where
  "offer_accepted_rows df =
     bind_exc (column df ''Status'') (\<lambda>st.
       Inr (select (map (\<lambda>c. c = StrC ''offer accepted'') st) df))"

definition non_identified_rows :: "frame \<Rightarrow> exc + frame" where
  "non_identified_rows df =
     bind_exc (column df ''Status'') (\<lambda>st.
       Inr (select (map (\<lambda>c. isin c non_identified_statuses) st) df))"

definition ready_for_placement_rows :: "frame \<Rightarrow> exc + frame" where
  "ready_for_placement_rows df =
     bind_exc (week_mask df week_gt6) (\<lambda>wk.
     bind_exc (column df ''Status'') (\<lambda>st.
       Inr (select (map2 (\<and>) wk (map (\<lambda>c. \<not> isin c placed_statuses) st)) df)))"

definition in_training_rows :: "frame \<Rightarrow> exc + frame" where
  "in_training_rows df =
     bind_exc (column df ''Status'') (\<lambda>st.
     bind_exc (week_mask df week_le6) (\<lambda>wk.
       Inr (select (map2 (\<and>) (map (\<lambda>c. c = StrC ''training'') st) wk) df)))"

section \<open>The endpoints\<close>

text \<open>
  The record built for one candidate row. \<^verbatim>\<open>row['MIT Name']\<close> raises \<^verbatim>\<open>KeyError\<close>
  when the column is absent; the other fields fall back to their defaults.
\<close>

definition week_or_placeholder :: "string list \<Rightarrow> cell list \<Rightarrow> exc + cell" where
  "week_or_placeholder cols r =
     (let week_value = row_get cols r ''Week'' placeholder
      in bind_exc (if_isna week_value) (\<lambda>missing.
           Inr (if missing then placeholder else week_value)))"

definition candidate_of_row :: "string list \<Rightarrow> cell list \<Rightarrow> exc + candidate" where
  "candidate_of_row cols r =
     bind_exc (week_or_placeholder cols r) (\<lambda>week_value.
     bind_exc (parse_salary (row_get cols r ''Salary'' (IntC 0))) (\<lambda>salary_value.
     bind_exc (row_item cols r ''MIT Name'') (\<lambda>nm.
       Inr \<lparr>c_name = nm,
            c_training_site = row_get cols r ''Training Site'' placeholder,
            c_location = row_get cols r ''Location'' placeholder,
            c_week = week_value,
            c_level = row_get cols r ''Level'' placeholder,
            c_salary = salary_value\<rparr>)))"

text \<open>\<^verbatim>\<open>GET /api/dashboard-data\<close>.\<close>

definition get_dashboard_data :: "'a env_scheme \<Rightarrow> response" where
  "get_dashboard_data w =
     catch_all
       (bind_exc (load_data w) (\<lambda>(df, src).
          let jobs_df = load_jobs_data w
          in if df_empty df then Inr (ErrorBody ''No data available'', 500)
             else
               bind_exc (offer_pending_rows df) (\<lambda>op.
               bind_exc (offer_accepted_rows df) (\<lambda>oa.
               bind_exc (non_identified_rows df) (\<lambda>ni.
               bind_exc (ready_for_placement_rows df) (\<lambda>rp.
               bind_exc (in_training_rows df) (\<lambda>it.
                 Inr (MetricsBody
                        \<lparr>total_candidates = len ni + len oa,
                         ready_for_placement = len rp,
                         in_training = len it,
                         offer_pending = len op,
                         open_jobs = (if \<not> df_empty jobs_df then len jobs_df else 0),
                         data_source = src\<rparr>, 200))))))))"

text \<open>\<^verbatim>\<open>GET /api/candidates\<close>.\<close>

definition get_candidates :: "pyenv \<Rightarrow> response" where
  "get_candidates w =
     catch_all
       (bind_exc (load_data w) (\<lambda>(df, src).
          if df_empty df then Inr (CandidatesBody [], 200)
          else
            bind_exc (ready_for_placement_rows df) (\<lambda>rp.
            bind_exc (collect (candidate_of_row (columns rp))
                        (iterrows (common_dtype (dtypes df)) rp)) (\<lambda>cs.
            bind_exc (jsonify_values w (concat (map candidate_values cs))) (\<lambda>u.
              Inr (CandidatesBody cs, 200))))))"

text \<open>\<^verbatim>\<open>GET /api/open-positions\<close>.\<close>

definition position_of_row :: "string list \<Rightarrow> cell list \<Rightarrow> position" where
  "position_of_row cols r =
     \<lparr>job_title = row_get cols r ''Job Title'' placeholder,
      account = row_get cols r ''Account'' placeholder,
      city = row_get cols r ''City'' placeholder,
      state = row_get cols r ''State'' placeholder,
      vertical = row_get cols r ''VERT'' placeholder,
      salary = row_get cols r ''Salary'' placeholder\<rparr>"

definition get_open_positions :: "pyenv \<Rightarrow> response" where
  "get_open_positions w =
     (let jobs_df = load_jobs_data w
      in if df_empty jobs_df then (PositionsBody [], 200)
         else
           (let positions = map (position_of_row (columns jobs_df))
                              (iterrows (common_dtype (dtypes jobs_df)) jobs_df)
            in catch_all
                 (bind_exc (jsonify_values w (concat (map position_values positions))) (\<lambda>u.
                    Inr (PositionsBody positions, 200)))))"

section \<open>The mock score generator\<close>

text \<open>
  \<^verbatim>\<open>hashlib.md5\<close> and the generator behind the \<^verbatim>\<open>random\<close> module are library code,
  taken as parameters: the hex digest of a name, the generator state that
  \<^verbatim>\<open>random.seed(n)\<close> installs, and the draw of a number below \<open>n\<close> from a state.
  \<^verbatim>\<open>randint\<close> and \<^verbatim>\<open>choice\<close> are built on that draw as in the standard library;
  the draw is below its bound there, which the \<open>mod\<close> in \<open>choice\<close> stands for.
\<close>

record 's pylib =
  md5_hexdigest :: "string \<Rightarrow> string"
  seed_int :: "int \<Rightarrow> 's"
  randbelow :: "nat \<Rightarrow> 's \<Rightarrow> nat \<times> 's"

text \<open>
  The process-wide generator: its current state, and the states that the coming
  \<^verbatim>\<open>random.seed()\<close> calls without an argument will install from operating-system
  entropy, with the number of such calls made so far.
\<close>

record 's rng =
  gen :: "'s"
  os_seeds :: "nat \<Rightarrow> 's"
  os_reads :: nat

definition random_seed :: "'s pylib \<Rightarrow> int \<Rightarrow> 's rng \<Rightarrow> 's rng" where
  "random_seed L n g = g\<lparr>gen := seed_int L n\<rparr>"

definition random_seed_none :: "'s rng \<Rightarrow> 's rng" where
  "random_seed_none g = g\<lparr>gen := os_seeds g (os_reads g), os_reads := Suc (os_reads g)\<rparr>"

definition randint :: "'s pylib \<Rightarrow> int \<Rightarrow> int \<Rightarrow> 's rng \<Rightarrow> int \<times> 's rng" where
  "randint L a b g =
     (let (k, s) = randbelow L (nat (b - a + 1)) (gen g) in (a + int k, g\<lparr>gen := s\<rparr>))"

definition choice :: "'s pylib \<Rightarrow> 'a list \<Rightarrow> 's rng \<Rightarrow> 'a \<times> 's rng" where
  "choice L xs g =
     (let (k, s) = randbelow L (length xs) (gen g) in (xs ! (k mod length xs), g\<lparr>gen := s\<rparr>))"

text \<open>\<^verbatim>\<open>int(s, 16)\<close> on a run of hexadecimal digits, as a digest is; \<open>None\<close> is \<^verbatim>\<open>ValueError\<close>.\<close>

definition hex_val :: "char \<Rightarrow> int option" where
  "hex_val c =
     map_of (zip ''0123456789abcdefABCDEF''
               [0, 1, 2, 3, 4, 5, 6, 7, 8, 9, 10, 11, 12, 13, 14, 15, 10, 11, 12, 13, 14, 15]) c"

fun int16_acc :: "int \<Rightarrow> string \<Rightarrow> int option" where
  "int16_acc a [] = Some a"
| "int16_acc a (c # cs) =
     (case hex_val c of None \<Rightarrow> None | Some d \<Rightarrow> int16_acc (16 * a + d) cs)"

definition int16 :: "string \<Rightarrow> int option" where
  "int16 s = (if s = [] then None else int16_acc 0 s)"

definition skill_rankings :: "string list" where
  "skill_rankings = [''Top 10%'', ''Top 15%'', ''Top 20%'', ''Top 25%'']"

text \<open>
  \<^verbatim>\<open>generate_mock_scores(candidate_name)\<close>, passing the process-wide generator through:
  seed it from the first eight hex digits of the digest, draw the five values, then
  \<^verbatim>\<open>random.seed()\<close>.
\<close>

definition generate_mock_scores ::
  "'s pylib \<Rightarrow> string \<Rightarrow> 's rng \<Rightarrow> (exc + scores) \<times> 's rng" where
  "generate_mock_scores L candidate_name g0 =
     (case int16 (take 8 (md5_hexdigest L candidate_name)) of
        None \<Rightarrow> (Inl (ValueError ''invalid literal for int() with base 16''), g0)
      | Some seed \<Rightarrow>
          (let g1 = random_seed L seed g0;
               (q, g2) = randint L 65 90 g1;
               (a, g3) = randint L 70 95 g2;
               (p, g4) = randint L 75 95 g3;
               (c, g5) = randint L 70 90 g4;
               (r, g6) = choice L skill_rankings g5;
               sc = \<lparr>qbr_score = q, assessment_score = a, performance_score = p,
                     confidence_score = c, skill_ranking = r\<rparr>;
               g7 = random_seed_none g6
           in (Inr sc, g7)))"

text \<open>
  \<^verbatim>\<open>GET /api/candidate/<name>\<close>, with the generator passed through. With the label
  \<^verbatim>\<open>MIT Name\<close> repeated, \<^verbatim>\<open>df['MIT Name'] == name\<close> is a table and the selection a
  masked copy of \<^verbatim>\<open>df\<close>, never empty; the name of its first row is then a \<^verbatim>\<open>Series\<close>,
  which the encoder rejects.
\<close>

definition get_candidate_profile ::
  "pyenv \<Rightarrow> 's pylib \<Rightarrow> string \<Rightarrow> 's rng \<Rightarrow> response \<times> 's rng" where
  "get_candidate_profile w L name g =
     (case load_data w of
        Inl e \<Rightarrow> (catch_all (Inl e), g)
      | Inr (df, src) \<Rightarrow>
          if df_empty df then ((ErrorBody ''No data available'', 500), g)
          else
            (case lookup (columns df) ''MIT Name'' of
               Absent \<Rightarrow> (catch_all (Inl (KeyError ''MIT Name'')), g)
             | Repeated \<Rightarrow>
                 (case generate_mock_scores L name g of
                    (Inl e, g') \<Rightarrow> (catch_all (Inl e), g')
                  | (Inr mock_scores, g') \<Rightarrow>
                      (catch_all (bind_exc (jsonify_values w [SeriesC]) (\<lambda>u.
                         Inr (ErrorBody [], 500))), g'))
             | Unique i \<Rightarrow>
                 (let cand = select (map (\<lambda>r. cell_at r i = StrC name) (rows df)) df
                  in if df_empty cand then ((ErrorBody ''Candidate not found'', 404), g)
                     else
                       (let row = iloc_row (dtypes df) (hd (rows cand))
                        in case generate_mock_scores L name g of
                             (Inl e, g') \<Rightarrow> (catch_all (Inl e), g')
                           | (Inr mock_scores, g') \<Rightarrow>
                               (catch_all
                                  (bind_exc (candidate_of_row (columns cand) row) (\<lambda>c.
                                   bind_exc (jsonify_values w (candidate_values c)) (\<lambda>u.
                                     Inr (ProfileBody c mock_scores, 200)))),
                                g')))))"

section \<open>Notions used in the statements\<close>

text \<open>
  The count of a bucket in the words of the specification: the number of row positions
  of the loaded table whose status is one of the given values.
\<close>

definition status_of :: "frame \<Rightarrow> cell list \<Rightarrow> cell" where
  "status_of df r = row_get (columns df) r ''Status'' (FloatC NaN)"

definition count_status :: "frame \<Rightarrow> string list \<Rightarrow> nat" where
  "count_status df vs =
     card {i. i < length (rows df) \<and> status_of df (rows df ! i) \<in> StrC ` set vs}"

text \<open>
  An input of \<^verbatim>\<open>parse_salary\<close> reads as negative: it is a negative int or float, or
  a string whose cleaned text \<^verbatim>\<open>float\<close> reads as a negative number or as NaN.
\<close>

definition reads_negative :: "cell \<Rightarrow> bool" where
  "reads_negative v =
     (case v of
        IntC n \<Rightarrow> n < 0
      | FloatC f \<Rightarrow> fl_less f (Fin 0)
      | StrC s \<Rightarrow>
          (case py_float (strip (remove_char CHR '','' (remove_char CHR ''$'' s))) of
             Some f \<Rightarrow> fl_less f (Fin 0) \<or> f = NaN
           | None \<Rightarrow> False)
      | _ \<Rightarrow> False)"

text \<open>
  The jobs sheet in the words of the specification. A column is extraneous when its
  label starts with \<^verbatim>\<open>Unnamed\<close> or is \<^verbatim>\<open>JV Link\<close> or \<^verbatim>\<open>JV ID\<close>. A row of the sheet
  is posted when one of its cells outside the extraneous columns is not missing;
  \<open>source_cell\<close> is the cell of a row under a label of the sheet. \<open>job_fields\<close> pairs the
  column labels with the fields of a posting.
\<close>

definition dropped_label :: "string \<Rightarrow> bool" where
  "dropped_label c \<longleftrightarrow> starts_with ''Unnamed'' c \<or> c \<in> set [''JV Link'', ''JV ID'']"

definition kept_cells :: "frame \<Rightarrow> cell list \<Rightarrow> cell list" where
  "kept_cells j r =
     map snd (filter (\<lambda>p. \<not> dropped_label (fst p))
                (zip (columns j) (pad (length (columns j)) r)))"

definition posted_rows :: "frame \<Rightarrow> cell list list" where
  "posted_rows j = filter (\<lambda>r. \<not> list_all isna (kept_cells j r)) (rows j)"

definition source_cell :: "frame \<Rightarrow> cell list \<Rightarrow> string \<Rightarrow> cell" where
  "source_cell j r name =
     (case index_of name (columns j) of Some i \<Rightarrow> cell_at r i | None \<Rightarrow> FloatC NaN)"

definition job_fields :: "(string \<times> (position \<Rightarrow> cell)) list" where
  "job_fields =
     [(''Job Title'', job_title), (''Account'', account), (''City'', city),
      (''State'', state), (''VERT'', vertical), (''Salary'', salary)]"

text \<open>
  A sample request: a candidate sheet with an untrimmed header, mixed-case statuses and
  a blank line; a jobs sheet with an auto-named column, an excluded column, a blank cell
  and a blank line. \<open>sample_df\<close> is the candidate table as loaded.
\<close>

definition sample_env :: pyenv where
  "sample_env =
     \<lparr>read_main = Inr \<lparr>columns = ['' Status'', ''Week'', ''MIT Name''],
                        rows = [[StrC ''Training '', IntC 4, StrC ''Ann''],
                                [StrC ''Offer Accepted'', IntC 9, StrC ''Bob''],
                                [FloatC NaN, FloatC NaN, FloatC NaN],
                                [StrC ''offer pending'', IntC 8, StrC ''Cy''],
                                [StrC ''Unassigned'', FloatC (Fin (15 / 2)), StrC ''Di'']]\<rparr>,
      read_jobs = Inr \<lparr>columns = [''Job Title'', ''Unnamed: 1'', ''Account'', ''JV ID''],
                        rows = [[StrC ''Engineer'', FloatC NaN, FloatC NaN, IntC 17],
                                [FloatC NaN, FloatC NaN, FloatC NaN, FloatC NaN]]\<rparr>,
      py_str = (\<lambda>c. ''nan''),
      type_name = (\<lambda>c. ''int64'')\<rparr>"

definition sample_df :: frame where
  "sample_df =
     \<lparr>columns = [''Status'', ''Week'', ''MIT Name''],
      rows = [[StrC ''training'', IntC 4, StrC ''Ann''],
              [StrC ''offer accepted'', IntC 9, StrC ''Bob''],
              [StrC ''offer pending'', IntC 8, StrC ''Cy''],
              [StrC ''unassigned'', FloatC (Fin (15 / 2)), StrC ''Di'']]\<rparr>"

section \<open>Properties of the mock score generator\<close>

lemma int16_digest_example: "int16 ''00c0ffee'' = Some 12648430"
  by (simp add: int16_def hex_val_def)

lemma generate_mock_scores_final_state:
  assumes "int16 (take 8 (md5_hexdigest L candidate_name)) \<noteq> None"
  shows "snd (generate_mock_scores L candidate_name g) = random_seed_none g"
  using assms
  by (auto simp add: generate_mock_scores_def random_seed_def randint_def choice_def
        random_seed_none_def Let_def split: option.splits prod.splits)

text \<open>
  Claim C5. \<^verbatim>\<open>generate_mock_scores\<close> is a function of the candidate name alone: whatever
  state the process-wide generator is in when the call is made, the same name gives the
  same result (the same score bundle), because the call first reseeds the generator
  from the digest of the name.
\<close>

theorem generate_mock_scores_deterministic:
  "fst (generate_mock_scores L candidate_name g) = fst (generate_mock_scores L candidate_name g')"
  by (simp add: generate_mock_scores_def random_seed_def randint_def choice_def
        random_seed_none_def Let_def split: option.splits prod.splits)

text \<open>
  Claim C10, as stated: after a call the process-wide generator is as if the call had
  not occurred. It is not: a generator that other code had seeded to state \<open>42\<close> is left
  in the state that \<^verbatim>\<open>random.seed()\<close> draws from operating-system entropy (here \<open>7\<close>).
\<close>

theorem generate_mock_scores_state_counterexample:
  "snd (generate_mock_scores
          \<lparr>md5_hexdigest = (\<lambda>s. ''00c0ffee00c0ffee00c0ffee00c0ffee''),
           seed_int = (\<lambda>n. n),
           randbelow = (\<lambda>n s. (0, s + 1))\<rparr>
          ''Jane Doe''
          \<lparr>gen = 42, os_seeds = (\<lambda>k. 7), os_reads = 0\<rparr>)
   \<noteq> \<lparr>gen = (42::int), os_seeds = (\<lambda>k. 7), os_reads = 0\<rparr>"
proof -
  let ?L = "\<lparr>md5_hexdigest = (\<lambda>s. ''00c0ffee00c0ffee00c0ffee00c0ffee''),
             seed_int = (\<lambda>n. n), randbelow = (\<lambda>n s. (0, s + 1))\<rparr> :: int pylib"
  have h: "int16 (take 8 (md5_hexdigest ?L ''Jane Doe'')) \<noteq> None"
    by (simp add: int16_digest_example)
  show ?thesis
    unfolding generate_mock_scores_final_state [OF h]
    by (simp add: random_seed_none_def)
qed

text \<open>
  Claim C10, amended. After every call that returns a score bundle, the process-wide
  generator is in exactly the state a single \<^verbatim>\<open>random.seed()\<close> would have left it in:
  reseeded from operating-system entropy, whatever the name and the five draws were.
  The state before the call is not restored.
\<close>

theorem generate_mock_scores_reseeds:
  assumes "int16 (take 8 (md5_hexdigest L candidate_name)) \<noteq> None"
  shows "snd (generate_mock_scores L candidate_name g) = random_seed_none g"
  using assms by (rule generate_mock_scores_final_state)

theorem generate_mock_scores_reseeds_witness:
  "int16 (take 8 (md5_hexdigest
       \<lparr>md5_hexdigest = (\<lambda>s. ''00c0ffee00c0ffee00c0ffee00c0ffee''),
        seed_int = (\<lambda>n. n), randbelow = (\<lambda>n s. (0, s + 1))\<rparr> ''Jane Doe'')) \<noteq> None
   \<and> snd (generate_mock_scores
          \<lparr>md5_hexdigest = (\<lambda>s. ''00c0ffee00c0ffee00c0ffee00c0ffee''),
           seed_int = (\<lambda>n. n), randbelow = (\<lambda>n s. (0, s + 1))\<rparr>
          ''Jane Doe''
          \<lparr>gen = (42::int), os_seeds = (\<lambda>k. 7), os_reads = 0\<rparr>)
     = \<lparr>gen = 7, os_seeds = (\<lambda>k. 7), os_reads = 1\<rparr>"
proof -
  let ?L = "\<lparr>md5_hexdigest = (\<lambda>s. ''00c0ffee00c0ffee00c0ffee00c0ffee''),
             seed_int = (\<lambda>n. n), randbelow = (\<lambda>n s. (0, s + 1))\<rparr> :: int pylib"
  have h: "int16 (take 8 (md5_hexdigest ?L ''Jane Doe'')) \<noteq> None"
    by (simp add: int16_digest_example)
  from generate_mock_scores_reseeds [OF h] h show ?thesis
    by (simp add: random_seed_none_def)
qed

section \<open>Properties of the loaders\<close>

text \<open>
  Claim C4. The loaders are to return an empty table on any failure and never raise.
  \<^verbatim>\<open>load_jobs_data\<close> does; \<^verbatim>\<open>load_data\<close> guards only \<^verbatim>\<open>pd.read_csv\<close>. On a table that
  was fetched and parsed but has no \<^verbatim>\<open>Status\<close> column, the unguarded
  \<^verbatim>\<open>df["Status"]\<close> raises \<^verbatim>\<open>KeyError\<close> out of \<^verbatim>\<open>load_data\<close>.
\<close>

theorem load_data_raises_without_status:
  "load_data
     \<lparr>read_main = Inr \<lparr>columns = [''MIT Name'', ''Week''], rows = [[StrC ''Ann'', IntC 3]]\<rparr>,
      read_jobs = Inl (FetchError ''unreachable''),
      py_str = (\<lambda>c. ''nan'')\<rparr>
   = Inl (KeyError ''Status'')"
  by (simp add: load_data_def dropna_all_def strip_def is_space_def lookup_def)

section \<open>Properties of the candidate classifier\<close>

lemma zip_map_filter: "map snd (filter fst (zip (map P xs) xs)) = filter P xs"
  by (induction xs) auto

lemma select_map: "rows (select (map P (rows df)) df) = filter P (rows df)"
  by (simp add: select_def zip_map_filter)

lemma map2_and: "map2 (\<and>) (map P xs) (map Q xs) = map (\<lambda>x. P x \<and> Q x) xs"
  by (induction xs) auto

lemma index_of_Some: "x \<in> set xs \<Longrightarrow> \<exists>i. index_of x xs = Some i"
  by (induction xs) auto

lemma index_of_None: "x \<notin> set xs \<Longrightarrow> index_of x xs = None"
  by (induction xs) auto

lemma index_of_less: "index_of x xs = Some i \<Longrightarrow> i < length xs"
  by (induction xs arbitrary: i) (auto split: if_splits)

lemma lookup_absent: "x \<notin> set xs \<Longrightarrow> lookup xs x = Absent"
  by (simp add: lookup_def index_of_None)

lemma lookup_present: "x \<in> set xs \<Longrightarrow> lookup xs x \<noteq> Absent"
  using index_of_Some [of x xs] by (auto simp add: lookup_def split: if_splits)

lemma lookup_unique_less: "lookup xs x = Unique i \<Longrightarrow> i < length xs"
  by (auto simp add: lookup_def index_of_less split: option.splits if_splits)

text \<open>A week mask over a table with a \<^verbatim>\<open>Week\<close> label is a test applied row by row.\<close>

lemma week_mask_rows:
  assumes "''Week'' \<in> set (columns df)"
  obtains W where "week_mask df P = Inr (map W (rows df))"
    and "\<And>r. W r \<Longrightarrow> \<exists>j. P (cell_at r j)"
proof (cases "lookup (columns df) ''Week''")
  case Absent
  with lookup_present [OF assms] show ?thesis by simp
next
  case (Unique j)
  then have "week_mask df P = Inr (map (\<lambda>r. P (cell_at r j)) (rows df))"
    by (simp add: week_mask_def)
  then show ?thesis by (rule that) auto
next
  case Repeated
  then have "week_mask df P = Inr (map (\<lambda>r. False) (rows df))"
    by (simp add: week_mask_def)
  then show ?thesis by (rule that) auto
qed

text \<open>A table that \<^verbatim>\<open>load_data\<close> returns and that is not empty has one \<^verbatim>\<open>Status\<close> column.\<close>

lemma load_data_has_status:
  assumes "load_data w = Inr (df, src)" and "\<not> df_empty df"
  shows "\<exists>i. lookup (columns df) ''Status'' = Unique i"
  using assms
  by (auto simp add: load_data_def Let_def map_column_def df_empty_def empty_frame_def
        split: sum.splits label_pos.splits)

lemma sample_load: "load_data sample_env = Inr (sample_df, ''Google Sheets'')"
  by code_simp

lemma sample_nonempty: "\<not> df_empty sample_df"
  by (simp add: df_empty_def sample_df_def)

lemma sample_dashboard:
  "get_dashboard_data sample_env =
     (MetricsBody
        \<lparr>total_candidates = 3, ready_for_placement = 1, in_training = 1,
         offer_pending = 1, open_jobs = 1, data_source = ''Google Sheets''\<rparr>, 200)"
  by code_simp

text \<open>
  Claim C1. For every candidate table that \<^verbatim>\<open>load_data\<close> returns non-empty and with a
  \<^verbatim>\<open>Week\<close> column, \<^verbatim>\<open>GET /api/dashboard-data\<close> answers with the metrics and status 200,
  and its \<^verbatim>\<open>total_candidates\<close> is the number of rows whose normalized status is
  \<^verbatim>\<open>free agent discussing opportunity\<close>, \<^verbatim>\<open>unassigned\<close> or \<^verbatim>\<open>training\<close> plus the number
  of rows whose normalized status is \<^verbatim>\<open>offer accepted\<close>.
\<close>

theorem total_candidates_count:
  assumes "load_data w = Inr (df, src)" and "\<not> df_empty df" and "''Week'' \<in> set (columns df)"
  shows "\<exists>m. get_dashboard_data w = (MetricsBody m, 200)
           \<and> total_candidates m
               = count_status df [''free agent discussing opportunity'', ''unassigned'', ''training'']
                 + count_status df [''offer accepted'']"
proof -
  from load_data_has_status [OF assms(1,2)] obtain i
    where i: "lookup (columns df) ''Status'' = Unique i" by blast
  from week_mask_rows [OF assms(3), of week_gt6] obtain W1
    where w1: "week_mask df week_gt6 = Inr (map W1 (rows df))" by blast
  from week_mask_rows [OF assms(3), of week_le6] obtain W2
    where w2: "week_mask df week_le6 = Inr (map W2 (rows df))" by blast
  have st: "status_of df r = cell_at r i" for r
    by (simp add: status_of_def row_get_def i)
  have cnt: "count_status df vs = length (filter (\<lambda>r. isin (cell_at r i) vs) (rows df))" for vs
    by (simp add: count_status_def st isin_def length_filter_conv_card)
  have oa: "isin c [''offer accepted''] \<longleftrightarrow> c = StrC ''offer accepted''" for c
    by (auto simp add: isin_def)
  show ?thesis
    using assms(1,2) i w1 w2
    by (simp add: get_dashboard_data_def bind_exc_def catch_all_def Let_def
          offer_pending_rows_def offer_accepted_rows_def non_identified_rows_def
          ready_for_placement_rows_def in_training_rows_def column_def len_def
          map2_and select_map comp_def cnt oa non_identified_statuses_def)
qed

theorem total_candidates_count_witness:
  "load_data sample_env = Inr (sample_df, ''Google Sheets'')
   \<and> \<not> df_empty sample_df
   \<and> ''Week'' \<in> set (columns sample_df)
   \<and> count_status sample_df [''free agent discussing opportunity'', ''unassigned'', ''training'']
       + count_status sample_df [''offer accepted'']
     = 3"
proof -
  have wk: "''Week'' \<in> set (columns sample_df)"
    by (simp add: sample_df_def)
  from total_candidates_count [OF sample_load sample_nonempty wk]
  show ?thesis
    using sample_load sample_nonempty wk by (auto simp add: sample_dashboard)
qed

text \<open>
  Claim C2. For every candidate table on which the buckets can be computed, no row of
  the offer-pending bucket is in the ready-for-placement bucket, and no row of the
  in-training bucket is in the ready-for-placement bucket.
\<close>

theorem buckets_disjoint:
  assumes "offer_pending_rows df = Inr op"
    and "ready_for_placement_rows df = Inr rp"
    and "in_training_rows df = Inr it"
  shows "set (rows op) \<inter> set (rows rp) = {} \<and> set (rows it) \<inter> set (rows rp) = {}"
proof -
  from assms(1) obtain i where i: "lookup (columns df) ''Status'' = Unique i"
    by (auto simp add: offer_pending_rows_def bind_exc_def column_def split: label_pos.splits)
  have st: "column df ''Status'' = Inr (map (\<lambda>r. cell_at r i) (rows df))"
    by (simp add: column_def i)
  from assms(1) st
  have op: "rows op = filter (\<lambda>r. cell_at r i = StrC ''offer pending'') (rows df)"
    by (auto simp add: offer_pending_rows_def bind_exc_def select_map comp_def)
  show ?thesis
  proof (cases "lookup (columns df) ''Week''")
    case Absent
    with assms(2) show ?thesis
      by (simp add: ready_for_placement_rows_def week_mask_def bind_exc_def)
  next
    case (Unique j)
    from assms(2) st Unique
    have rp: "rows rp =
        filter (\<lambda>r. week_gt6 (cell_at r j) \<and> \<not> isin (cell_at r i) placed_statuses) (rows df)"
      by (auto simp add: ready_for_placement_rows_def week_mask_def bind_exc_def
            map2_and select_map comp_def)
    from assms(3) st Unique
    have it: "rows it =
        filter (\<lambda>r. cell_at r i = StrC ''training'' \<and> week_le6 (cell_at r j)) (rows df)"
      by (auto simp add: in_training_rows_def week_mask_def bind_exc_def
            map2_and select_map comp_def)
    have ex: "\<not> (week_gt6 c \<and> week_le6 c)" for c
      by (cases c; cases "number_of c") (auto simp add: week_gt6_def week_le6_def)
    have "set (rows op) \<inter> set (rows rp) = {}"
      unfolding op rp by (auto simp add: isin_def placed_statuses_def)
    moreover have "set (rows it) \<inter> set (rows rp) = {}"
      unfolding it rp using ex by auto
    ultimately show ?thesis by simp
  next
    case Repeated
    from assms(2) st Repeated have "rows rp = []"
      by (auto simp add: ready_for_placement_rows_def week_mask_def bind_exc_def
            map2_and select_map comp_def)
    then show ?thesis by simp
  qed
qed

theorem buckets_disjoint_witness:
  "offer_pending_rows sample_df
     = Inr \<lparr>columns = [''Status'', ''Week'', ''MIT Name''],
            rows = [[StrC ''offer pending'', IntC 8, StrC ''Cy'']]\<rparr>
   \<and> ready_for_placement_rows sample_df
     = Inr \<lparr>columns = [''Status'', ''Week'', ''MIT Name''],
            rows = [[StrC ''unassigned'', FloatC (Fin (15 / 2)), StrC ''Di'']]\<rparr>
   \<and> in_training_rows sample_df
     = Inr \<lparr>columns = [''Status'', ''Week'', ''MIT Name''],
            rows = [[StrC ''training'', IntC 4, StrC ''Ann'']]\<rparr>
   \<and> set [[StrC ''offer pending'', IntC 8, StrC ''Cy'']]
       \<inter> set [[StrC ''unassigned'', FloatC (Fin (15 / 2)), StrC ''Di'']] = {}
   \<and> set [[StrC ''training'', IntC 4, StrC ''Ann'']]
       \<inter> set [[StrC ''unassigned'', FloatC (Fin (15 / 2)), StrC ''Di'']] = {}"
proof -
  have a: "offer_pending_rows sample_df
     = Inr \<lparr>columns = [''Status'', ''Week'', ''MIT Name''],
            rows = [[StrC ''offer pending'', IntC 8, StrC ''Cy'']]\<rparr>"
    by code_simp
  have b: "ready_for_placement_rows sample_df
     = Inr \<lparr>columns = [''Status'', ''Week'', ''MIT Name''],
            rows = [[StrC ''unassigned'', FloatC (Fin (15 / 2)), StrC ''Di'']]\<rparr>"
    by code_simp
  have c: "in_training_rows sample_df
     = Inr \<lparr>columns = [''Status'', ''Week'', ''MIT Name''],
            rows = [[StrC ''training'', IntC 4, StrC ''Ann'']]\<rparr>"
    by code_simp
  from buckets_disjoint [OF a b c] a b c show ?thesis
    by simp
qed

section \<open>Properties of the row normalizer\<close>

subsection \<open>Binary digits and rounding\<close>

lemma bitlen_nonneg: "0 \<le> bitlen n"
  by (induction n rule: bitlen.induct) (subst bitlen.simps, simp)

lemma bitlen_one: "bitlen 1 = 1"
  by (simp add: bitlen.simps [of 1] bitlen.simps [of 0])

lemma int_pow2_step: "1 \<le> k \<Longrightarrow> (2::int) ^ nat k = 2 * 2 ^ nat (k - 1)"
proof -
  assume "1 \<le> k"
  then have "nat k = Suc (nat (k - 1))"
    by linarith
  then show ?thesis
    by simp
qed

lemma bitlen_upper: "0 \<le> k \<Longrightarrow> n < 2 ^ nat k \<Longrightarrow> bitlen n \<le> k"
proof (induction n arbitrary: k rule: bitlen.induct)
  case (1 n)
  show ?case
  proof (cases "n \<le> 0")
    case True
    with "1.prems" show ?thesis by (simp add: bitlen.simps [of n])
  next
    case False
    with "1.prems" have k: "1 \<le> k"
      by (cases "k = 0") auto
    then have "(2::int) ^ nat k = 2 * 2 ^ nat (k - 1)"
      by (rule int_pow2_step)
    with "1.prems" have "n div 2 < 2 ^ nat (k - 1)"
      by linarith
    with "1.IH" [of "k - 1"] False k have "bitlen (n div 2) \<le> k - 1"
      by simp
    with False show ?thesis by (simp add: bitlen.simps [of n])
  qed
qed

lemma bitlen_lower: "1 \<le> n \<Longrightarrow> 2 ^ nat (bitlen n - 1) \<le> n"
proof (induction n rule: bitlen.induct)
  case (1 n)
  show ?case
  proof (cases "n = 1")
    case True
    then show ?thesis by (simp add: bitlen_one)
  next
    case False
    with "1.prems" have h: "1 \<le> n div 2" and pos: "\<not> n \<le> 0"
      by linarith+
    from "1.IH" [OF pos h] have ih: "2 ^ nat (bitlen (n div 2) - 1) \<le> n div 2" .
    have b1: "1 \<le> bitlen (n div 2)"
      using h bitlen_nonneg [of "n div 2 div 2"] by (simp add: bitlen.simps [of "n div 2"])
    have bn: "bitlen n - 1 = bitlen (n div 2)"
      using pos by (simp add: bitlen.simps [of n])
    from b1 have "(2::int) ^ nat (bitlen (n div 2)) = 2 * 2 ^ nat (bitlen (n div 2) - 1)"
      by (rule int_pow2_step)
    also have "\<dots> \<le> 2 * (n div 2)"
      using ih by simp
    also have "\<dots> \<le> n"
      by linarith
    finally show ?thesis by (simp add: bn)
  qed
qed

lemma pow2_pos: "0 < pow2 e"
  by (simp add: pow2_def)

lemma pow2_cancel: "q \<le> 0 \<Longrightarrow> of_int (n * 2 ^ nat (- q)) * pow2 q = of_int n"
  by (cases "q = 0") (simp_all add: pow2_def)

text \<open>The shape of a rounded value: \<open>m\<close> units of the last place \<open>q\<close>.\<close>

lemma round_ratio_form:
  assumes "num \<noteq> 0"
  obtains q m where
    "round_ratio num den =
       (if pow2 1024 \<le> of_int m * pow2 q then PosInf else Fin (of_int m * pow2 q))"
    and "q \<le> max (bitlen num - bitlen den) (- 1022) - 52"
    and "m = (if 0 \<le> q then num else num * 2 ^ nat (- q))
               div (if 0 \<le> q then den * 2 ^ nat q else den)
         \<or> m = (if 0 \<le> q then num else num * 2 ^ nat (- q))
               div (if 0 \<le> q then den * 2 ^ nat q else den) + 1"
    and "2 * ((if 0 \<le> q then num else num * 2 ^ nat (- q))
               mod (if 0 \<le> q then den * 2 ^ nat q else den))
           < (if 0 \<le> q then den * 2 ^ nat q else den)
         \<Longrightarrow> m = (if 0 \<le> q then num else num * 2 ^ nat (- q))
               div (if 0 \<le> q then den * 2 ^ nat q else den)"
proof -
  define e where "e = (if ge_pow2 num den (bitlen num - bitlen den)
      then bitlen num - bitlen den else bitlen num - bitlen den - 1)"
  define q where "q = max e (- 1022) - 52"
  define a where "a = (if 0 \<le> q then num else num * 2 ^ nat (- q))"
  define b where "b = (if 0 \<le> q then den * 2 ^ nat q else den)"
  define m where "m = (if 2 * (a mod b) < b then a div b
      else if b < 2 * (a mod b) then a div b + 1
      else if even (a div b) then a div b else a div b + 1)"
  have rr: "round_ratio num den =
      (if pow2 1024 \<le> of_int m * pow2 q then PosInf else Fin (of_int m * pow2 q))"
    unfolding round_ratio_def Let_def m_def a_def b_def q_def e_def
    using assms by (simp only: if_False)
  have el: "e \<le> bitlen num - bitlen den"
    unfolding e_def by (cases "ge_pow2 num den (bitlen num - bitlen den)") simp_all
  have qe: "q \<le> max (bitlen num - bitlen den) (- 1022) - 52"
    unfolding q_def using el by linarith
  have m1: "m = a div b \<or> m = a div b + 1"
    unfolding m_def by (cases "2 * (a mod b) < b"; cases "b < 2 * (a mod b)";
        cases "even (a div b)") simp_all
  have m2: "2 * (a mod b) < b \<Longrightarrow> m = a div b"
    unfolding m_def by simp
  show thesis
    by (rule that [OF rr qe m1 [unfolded a_def b_def] m2 [unfolded a_def b_def]])
qed

text \<open>The rounded value of a quotient that is not negative is not negative.\<close>

lemma round_ratio_nonneg:
  assumes "0 \<le> num" and "0 < den"
  shows "round_ratio num den = PosInf \<or> (\<exists>x. 0 \<le> x \<and> round_ratio num den = Fin x)"
proof (cases "num = 0")
  case True
  then show ?thesis by (simp add: round_ratio_def)
next
  case False
  from round_ratio_form [OF False, of den] obtain q m where
    rr: "round_ratio num den =
       (if pow2 1024 \<le> of_int m * pow2 q then PosInf else Fin (of_int m * pow2 q))"
    and m: "m = (if 0 \<le> q then num else num * 2 ^ nat (- q))
               div (if 0 \<le> q then den * 2 ^ nat q else den)
         \<or> m = (if 0 \<le> q then num else num * 2 ^ nat (- q))
               div (if 0 \<le> q then den * 2 ^ nat q else den) + 1"
    by blast
  define a where "a = (if 0 \<le> q then num else num * 2 ^ nat (- q))"
  define b where "b = (if 0 \<le> q then den * 2 ^ nat q else den)"
  have "0 \<le> a" "0 < b"
    using assms by (simp_all add: a_def b_def)
  then have "0 \<le> a div b"
    by (simp add: pos_imp_zdiv_nonneg_iff)
  with m have "0 \<le> m"
    unfolding a_def [symmetric] b_def [symmetric] by auto
  then have "0 \<le> (of_int m :: rat) * pow2 q"
    using pow2_pos [of q] by (simp add: mult_nonneg_nonneg less_imp_le)
  with rr show ?thesis by auto
qed

text \<open>An int below \<open>2\<close> to the \<open>53\<close> is its own rounded value.\<close>

lemma round_ratio_exact:
  assumes "0 < n" and "n < 2 ^ 53"
  shows "round_ratio n 1 = Fin (of_int n)"
proof -
  from assms(1) have nz: "n \<noteq> 0" by simp
  from round_ratio_form [OF nz, of 1] obtain q m where
    rr: "round_ratio n 1 =
       (if pow2 1024 \<le> of_int m * pow2 q then PosInf else Fin (of_int m * pow2 q))"
    and qe: "q \<le> max (bitlen n - bitlen 1) (- 1022) - 52"
    and m2: "2 * ((if 0 \<le> q then n else n * 2 ^ nat (- q))
               mod (if 0 \<le> q then 1 * 2 ^ nat q else 1))
           < (if 0 \<le> q then 1 * 2 ^ nat q else 1)
         \<Longrightarrow> m = (if 0 \<le> q then n else n * 2 ^ nat (- q))
               div (if 0 \<le> q then 1 * 2 ^ nat q else 1)"
    by blast
  from assms(2) have "bitlen n \<le> 53"
    using bitlen_upper [of 53 n] by simp
  with qe have q0: "q \<le> 0"
    by (simp add: bitlen_one)
  have m1: "m = n * 2 ^ nat (- q)"
    using m2 q0 by (cases "q = 0") simp_all
  have x: "of_int m * pow2 q = (of_int n :: rat)"
    unfolding m1 by (rule pow2_cancel [OF q0])
  have "(of_int n :: rat) < 2 ^ 53"
    using assms(2) by (metis of_int_less_iff of_int_numeral of_int_power)
  also have "\<dots> < pow2 1024"
    by (simp add: pow2_def)
  finally have "\<not> pow2 1024 \<le> (of_int n :: rat)"
    by simp
  with rr x show ?thesis by simp
qed

text \<open>The rounded value of a positive int is positive.\<close>

lemma round_ratio_pos:
  assumes "1 \<le> n"
  shows "round_ratio n 1 = PosInf \<or> (\<exists>x. 0 < x \<and> round_ratio n 1 = Fin x)"
proof -
  from assms have nz: "n \<noteq> 0" by simp
  from round_ratio_form [OF nz, of 1] obtain q m where
    rr: "round_ratio n 1 =
       (if pow2 1024 \<le> of_int m * pow2 q then PosInf else Fin (of_int m * pow2 q))"
    and qe: "q \<le> max (bitlen n - bitlen 1) (- 1022) - 52"
    and m: "m = (if 0 \<le> q then n else n * 2 ^ nat (- q))
               div (if 0 \<le> q then 1 * 2 ^ nat q else 1)
         \<or> m = (if 0 \<le> q then n else n * 2 ^ nat (- q))
               div (if 0 \<le> q then 1 * 2 ^ nat q else 1) + 1"
    by blast
  define a where "a = (if 0 \<le> q then n else n * 2 ^ nat (- q))"
  define b where "b = (if 0 \<le> q then 1 * 2 ^ nat q else (1::int))"
  have b1: "1 \<le> bitlen n"
    using assms bitlen_nonneg [of "n div 2"] by (simp add: bitlen.simps [of n])
  with qe have ql: "q \<le> bitlen n - 1"
    by (simp add: bitlen_one)
  have bpos: "0 < b"
    by (simp add: b_def)
  have ab: "b \<le> a"
  proof (cases "0 \<le> q")
    case True
    then have "(2::int) ^ nat q \<le> 2 ^ nat (bitlen n - 1)"
      using ql by (intro power_increasing) auto
    also have "\<dots> \<le> n"
      by (rule bitlen_lower [OF assms])
    finally show ?thesis using True by (simp add: a_def b_def)
  next
    case False
    have "1 * 1 \<le> n * 2 ^ nat (- q)"
      using assms by (intro mult_mono) auto
    with False show ?thesis by (simp add: a_def b_def)
  qed
  have "0 < a div b"
    using ab bpos by (simp add: pos_imp_zdiv_pos_iff)
  with m have "0 < m"
    unfolding a_def [symmetric] b_def [symmetric] by auto
  then have "0 < (of_int m :: rat) * pow2 q"
    using pow2_pos [of q] by (simp add: zero_less_mult_iff)
  with rr show ?thesis by auto
qed

lemma float_of_int_exact:
  assumes "\<bar>n\<bar> < 2 ^ 53"
  shows "float_of_int n = Inr (Fin (of_int n))"
proof (cases "n = 0")
  case True
  then show ?thesis by (simp add: float_of_int_def round_ratio_def)
next
  case False
  then have "0 < \<bar>n\<bar>" by simp
  from round_ratio_exact [OF this assms] show ?thesis
    by (simp add: float_of_int_def)
qed

lemma float_of_int_sign:
  assumes "float_of_int n = Inr f"
  shows "fl_le (Fin 0) f \<longleftrightarrow> 0 \<le> n"
proof (cases "n = 0")
  case True
  with assms show ?thesis by (auto simp add: float_of_int_def round_ratio_def)
next
  case False
  then have "1 \<le> \<bar>n\<bar>" by simp
  from round_ratio_pos [OF this] assms show ?thesis
    by (auto simp add: float_of_int_def split: if_splits)
qed

subsection \<open>Reading and returning numbers\<close>

lemma parse_salary_example:
  "parse_salary (StrC ''$1,234.50'') = Inr (FloatC (Fin (2469 / 2)))"
  by code_simp

lemma py_float_twelve:
  "py_float (strip (remove_char CHR '','' (remove_char CHR ''$'' ''twelve''))) = None"
  by code_simp

lemma float_of_int_2_53:
  "float_of_int 9007199254740992 = Inr (Fin 9007199254740992)"
  "float_of_int (- 9007199254740992) = Inr (Fin (- 9007199254740992))"
  by code_simp+

text \<open>\<^verbatim>\<open>float(n)\<close> is \<open>n\<close> for every int up to \<open>2\<close> to the \<open>53\<close> in magnitude.\<close>

lemma float_of_int_small:
  assumes "\<bar>n\<bar> \<le> 2 ^ 53"
  shows "float_of_int n = Inr (Fin (of_int n))"
proof (cases "\<bar>n\<bar> < 2 ^ 53")
  case True
  then show ?thesis by (rule float_of_int_exact)
next
  case False
  with assms have "n = 9007199254740992 \<or> n = - 9007199254740992"
    by auto
  then show ?thesis
    using float_of_int_2_53 by auto
qed

lemma digit_val_nonneg: "0 \<le> digit_val c"
  by (simp add: digit_val_def)

lemma digits_fold_nonneg: "0 \<le> a \<Longrightarrow> 0 \<le> foldl (\<lambda>a c. 10 * a + digit_val c) a ds"
  by (induction ds arbitrary: a) (simp_all add: digit_val_nonneg)

lemma digits_val_nonneg: "0 \<le> digits_val ds"
  by (simp add: digits_val_def digits_fold_nonneg)

lemma round_decimal_nonneg:
  assumes "0 \<le> m"
  shows "fl_le (Fin 0) (round_decimal m e)"
proof (cases "0 \<le> e")
  case True
  from assms have "0 \<le> m * 10 ^ nat e" by simp
  from round_ratio_nonneg [OF this, of 1] True show ?thesis
    by (auto simp add: round_decimal_def)
next
  case False
  have "(0::int) < 10 ^ nat (- e)" by simp
  from round_ratio_nonneg [OF assms this] False show ?thesis
    by (auto simp add: round_decimal_def)
qed

lemma parse_decimal_nonneg: "parse_decimal s = Some f \<Longrightarrow> fl_le (Fin 0) f"
  by (auto simp add: parse_decimal_def Let_def round_decimal_nonneg digits_val_nonneg
        split: list.splits if_splits option.splits prod.splits)

lemma split_sign_no_minus: "CHR ''-'' \<notin> set s \<Longrightarrow> split_sign s = (neg, b) \<Longrightarrow> \<not> neg"
  by (auto simp add: split_sign_def split: list.splits if_splits)

lemma set_strip: "set (strip s) \<subseteq> set s"
  by (auto simp add: strip_def dest!: set_dropWhileD)

text \<open>A text without a minus sign that \<^verbatim>\<open>float\<close> reads as a number reads as one that is not negative.\<close>

lemma py_float_nonneg:
  assumes "CHR ''-'' \<notin> set s" and "py_float s = Some f" and "f \<noteq> NaN"
  shows "fl_le (Fin 0) f"
proof -
  have m: "CHR ''-'' \<notin> set (remove_char CHR ''_'' (strip s))"
    using assms(1) set_strip by (auto simp add: remove_char_def)
  obtain neg b where sb: "split_sign (remove_char CHR ''_'' (strip s)) = (neg, b)"
    by (cases "split_sign (remove_char CHR ''_'' (strip s))")
  from split_sign_no_minus [OF m sb] have nn: "\<not> neg" .
  from assms(2,3) sb nn show ?thesis
    by (auto simp add: py_float_def Let_def parse_decimal_nonneg split: if_splits option.splits)
qed

lemma fl_le_zero_iff: "f \<noteq> NaN \<Longrightarrow> fl_le (Fin 0) f \<longleftrightarrow> \<not> fl_less f (Fin 0)"
  by (cases f) auto




text \<open>
  Claim C6, as stated: the result of \<^verbatim>\<open>parse_salary\<close> is a non-negative number for
  every input. It is not: a negative salary cell comes back as the same negative number.
\<close>

theorem parse_salary_negative_counterexample:
  "parse_salary (IntC (- 5)) = Inr (FloatC (Fin (- 5))) \<and> \<not> cell_nonneg (FloatC (Fin (- 5)))"
  by (simp add: parse_salary_def if_isna_def float_of_int_small cell_nonneg_def)

text \<open>
  Claim C6, amended. Whenever \<^verbatim>\<open>parse_salary\<close> returns, its result is a non-negative
  number exactly when the input does not read as negative: when it is not a negative
  int or float and not a string whose cleaned text \<^verbatim>\<open>float\<close> reads as a negative
  number or as NaN. In particular the result is non-negative for a string without a
  minus sign that does not read as NaN, and it is \<open>0\<close> on any parse failure.
\<close>

theorem parse_salary_nonneg:
  assumes "parse_salary v = Inr c"
  shows "(cell_nonneg c \<longleftrightarrow> \<not> reads_negative v)
       \<and> (v = StrC s \<and> CHR ''-'' \<notin> set s
            \<and> py_float (strip (remove_char CHR '','' (remove_char CHR ''$'' s))) \<noteq> Some NaN
          \<longrightarrow> cell_nonneg c)
       \<and> (py_float (strip (remove_char CHR '','' (remove_char CHR ''$'' t))) = None
            \<longrightarrow> parse_salary (StrC t) = Inr (IntC 0))"
proof -
  have iff: "cell_nonneg c \<longleftrightarrow> \<not> reads_negative v"
  proof (cases v)
    case (IntC n)
    with assms obtain f where f: "float_of_int n = Inr f" and c: "c = FloatC f"
      by (auto simp add: parse_salary_def if_isna_def split: sum.splits)
    from float_of_int_sign [OF f] show ?thesis
      by (auto simp add: c IntC cell_nonneg_def reads_negative_def)
  next
    case (FloatC f)
    show ?thesis
    proof (cases "f = NaN")
      case True
      with assms FloatC show ?thesis
        by (auto simp add: parse_salary_def if_isna_def cell_nonneg_def reads_negative_def)
    next
      case False
      with assms FloatC have "c = FloatC f"
        by (cases f) (auto simp add: parse_salary_def if_isna_def)
      with False FloatC show ?thesis
        by (simp add: cell_nonneg_def reads_negative_def fl_le_zero_iff)
    qed
  next
    case (StrC u)
    show ?thesis
    proof (cases "py_float (strip (remove_char CHR '','' (remove_char CHR ''$'' u)))")
      case None
      with assms StrC show ?thesis
        by (auto simp add: parse_salary_def if_isna_def cell_nonneg_def reads_negative_def)
    next
      case (Some f)
      with assms StrC have "c = FloatC f"
        by (auto simp add: parse_salary_def if_isna_def)
      with Some StrC show ?thesis
        by (cases "f = NaN") (auto simp add: cell_nonneg_def reads_negative_def fl_le_zero_iff)
    qed
  next
    case (BoolC b)
    with assms show ?thesis
      by (auto simp add: parse_salary_def if_isna_def cell_nonneg_def reads_negative_def)
  qed (use assms in \<open>auto simp add: parse_salary_def if_isna_def cell_nonneg_def
        reads_negative_def\<close>)
  have nominus: "cell_nonneg c"
    if "v = StrC s" and nm: "CHR ''-'' \<notin> set s"
      and nn: "py_float (strip (remove_char CHR '','' (remove_char CHR ''$'' s))) \<noteq> Some NaN"
  proof -
    let ?c = "strip (remove_char CHR '','' (remove_char CHR ''$'' s))"
    have "set ?c \<subseteq> set (remove_char CHR '','' (remove_char CHR ''$'' s))"
      by (rule set_strip)
    also have "\<dots> \<subseteq> set s"
      by (auto simp add: remove_char_def)
    finally have m: "CHR ''-'' \<notin> set ?c"
      using nm by blast
    show ?thesis
    proof (cases "py_float ?c")
      case None
      with assms that(1) show ?thesis
        by (auto simp add: parse_salary_def if_isna_def cell_nonneg_def)
    next
      case (Some f)
      with nn have "f \<noteq> NaN" by auto
      from py_float_nonneg [OF m Some this] assms that(1) Some show ?thesis
        by (auto simp add: parse_salary_def if_isna_def cell_nonneg_def)
    qed
  qed
  have fail: "py_float (strip (remove_char CHR '','' (remove_char CHR ''$'' t))) = None
            \<longrightarrow> parse_salary (StrC t) = Inr (IntC 0)"
    by (simp add: parse_salary_def if_isna_def)
  from iff nominus fail show ?thesis
    by blast
qed

theorem parse_salary_nonneg_witness:
  "parse_salary (StrC ''-0'') = Inr (FloatC (Fin 0))
   \<and> cell_nonneg (FloatC (Fin 0))
   \<and> \<not> reads_negative (StrC ''-0'')
   \<and> parse_salary (StrC ''$1,234.50'') = Inr (FloatC (Fin (2469 / 2)))
   \<and> CHR ''-'' \<notin> set ''$1,234.50''
   \<and> py_float (strip (remove_char CHR '','' (remove_char CHR ''$'' ''$1,234.50''))) \<noteq> Some NaN
   \<and> cell_nonneg (FloatC (Fin (2469 / 2)))
   \<and> py_float (strip (remove_char CHR '','' (remove_char CHR ''$'' ''twelve''))) = None
   \<and> parse_salary (StrC ''twelve'') = Inr (IntC 0)"
proof -
  have a: "parse_salary (StrC ''-0'') = Inr (FloatC (Fin 0))"
    by code_simp
  have b: "py_float (strip (remove_char CHR '','' (remove_char CHR ''$'' ''$1,234.50'')))
             = Some (Fin (2469 / 2))"
    by code_simp
  have r: "\<not> reads_negative (StrC ''-0'')"
    using parse_salary_nonneg [OF a, of "''x''" "''twelve''"] by (simp add: cell_nonneg_def)
  from parse_salary_nonneg [OF parse_salary_example, of "''$1,234.50''" "''twelve''"]
    a b r py_float_twelve parse_salary_example
  show ?thesis
    by (simp add: cell_nonneg_def)
qed

section \<open>Properties of the empty-table path\<close>

text \<open>
  When the table that the loader hands to the endpoints is empty, the dashboard answers
  \<^verbatim>\<open>No data available\<close> with status 500 and the candidate list is empty with status 200.
\<close>

lemma empty_loaded_table_responses:
  assumes "load_data w = Inr (df, src)" and "df_empty df"
  shows "get_dashboard_data w = (ErrorBody ''No data available'', 500)
       \<and> get_candidates w = (CandidatesBody [], 200)"
  using assms
  by (simp add: get_dashboard_data_def get_candidates_def bind_exc_def catch_all_def)

text \<open>
  The loader hands out an empty table when the sheet cannot be read, and when the sheet
  has exactly one \<^verbatim>\<open>Status\<close> label and no row with a cell that is not missing.
\<close>

lemma empty_sheet_loads_empty:
  assumes "read_main w = Inl e
         \<or> (\<exists>df0 i. read_main w = Inr df0
               \<and> lookup (map strip (columns df0)) ''Status'' = Unique i
               \<and> (\<forall>r\<in>set (rows df0). list_all isna r))"
  shows "\<exists>df src. load_data w = Inr (df, src) \<and> df_empty df"
  using assms
proof
  assume "read_main w = Inl e"
  then show ?thesis
    by (simp add: load_data_def df_empty_def empty_frame_def)
next
  assume "\<exists>df0 i. read_main w = Inr df0
               \<and> lookup (map strip (columns df0)) ''Status'' = Unique i
               \<and> (\<forall>r\<in>set (rows df0). list_all isna r)"
  then obtain df0 i where r: "read_main w = Inr df0"
    and l: "lookup (map strip (columns df0)) ''Status'' = Unique i"
    and b: "\<forall>r\<in>set (rows df0). list_all isna r"
    by blast
  from b have "filter (\<lambda>r. \<not> list_all isna r) (rows df0) = []"
    by (simp add: filter_empty_conv)
  with r l show ?thesis
    by (simp add: load_data_def Let_def dropna_all_def map_column_def df_empty_def)
qed

lemma empty_sheet_responses:
  assumes "read_main w = Inl e
         \<or> (\<exists>df0 i. read_main w = Inr df0
               \<and> lookup (map strip (columns df0)) ''Status'' = Unique i
               \<and> (\<forall>r\<in>set (rows df0). list_all isna r))"
  shows "get_dashboard_data w = (ErrorBody ''No data available'', 500)
       \<and> get_candidates w = (CandidatesBody [], 200)"
proof -
  from empty_sheet_loads_empty [OF assms] obtain df src
    where "load_data w = Inr (df, src)" and "df_empty df" by blast
  then show ?thesis by (rule empty_loaded_table_responses)
qed

text \<open>
  Claim C7. With an empty candidate table upstream, \<^verbatim>\<open>GET /api/dashboard-data\<close> is to
  answer an error body with status 500 and \<^verbatim>\<open>GET /api/candidates\<close> the empty list with
  status 200. On a sheet that has its header and no candidate row, and no \<^verbatim>\<open>Status\<close>
  column in the header, \<^verbatim>\<open>load_data\<close> raises \<^verbatim>\<open>KeyError\<close> at its unguarded
  \<^verbatim>\<open>df["Status"]\<close> (the defect of claim C4), and both endpoints answer that error with
  status 500: the candidate list is not the empty list.
\<close>

theorem empty_sheet_without_status_responses:
  "get_candidates
     \<lparr>read_main = Inr \<lparr>columns = [''MIT Name'', ''Week''], rows = []\<rparr>,
      read_jobs = Inl (FetchError ''timed out''),
      py_str = (\<lambda>c. ''nan''),
      type_name = (\<lambda>c. ''int64'')\<rparr>
   = (ErrorBody ([CHR 0x27] @ ''Status'' @ [CHR 0x27]), 500)
   \<and> get_dashboard_data
     \<lparr>read_main = Inr \<lparr>columns = [''MIT Name'', ''Week''], rows = []\<rparr>,
      read_jobs = Inl (FetchError ''timed out''),
      py_str = (\<lambda>c. ''nan''),
      type_name = (\<lambda>c. ''int64'')\<rparr>
   = (ErrorBody ([CHR 0x27] @ ''Status'' @ [CHR 0x27]), 500)"
  by (simp add: get_candidates_def get_dashboard_data_def load_data_def dropna_all_def
        strip_def is_space_def lookup_def bind_exc_def catch_all_def)

section \<open>Properties of the profile endpoint\<close>

lemma filter_mask_none: "\<forall>x\<in>set xs. \<not> P x \<Longrightarrow> filter fst (zip (map P xs) xs) = []"
  by (induction xs) auto

lemma sample_names:
  "column sample_df ''MIT Name'' = Inr [StrC ''Ann'', StrC ''Bob'', StrC ''Cy'', StrC ''Di'']"
  by code_simp

text \<open>
  Claim C8, as stated: whenever no row's name matches, \<^verbatim>\<open>GET /api/candidate/<name>\<close>
  answers 404. It does not when the table has no rows: the sheet below has its header
  and no candidate, no row matches \<^verbatim>\<open>UnknownName\<close>, and the answer is the
  \<^verbatim>\<open>No data available\<close> error with status 500, from the \<^verbatim>\<open>df.empty\<close> guard.
\<close>

theorem candidate_profile_empty_table_counterexample:
  "fst (get_candidate_profile
          \<lparr>read_main = Inr \<lparr>columns = [''MIT Name'', ''Status'', ''Week''], rows = []\<rparr>,
           read_jobs = Inl (FetchError ''timed out''),
           py_str = (\<lambda>c. ''nan''),
           type_name = (\<lambda>c. ''int64'')\<rparr>
          \<lparr>md5_hexdigest = (\<lambda>s. ''00c0ffee00c0ffee00c0ffee00c0ffee''),
           seed_int = (\<lambda>n. n),
           randbelow = (\<lambda>n s. (0, s + 1))\<rparr>
          ''UnknownName''
          \<lparr>gen = (42::int), os_seeds = (\<lambda>k. 7), os_reads = 0\<rparr>)
   = (ErrorBody ''No data available'', 500)"
  by (simp add: get_candidate_profile_def load_data_def dropna_all_def strip_def is_space_def
        lookup_def map_column_def df_empty_def)

text \<open>
  Claim C8, amended. For every request \<^verbatim>\<open>GET /api/candidate/<name>\<close>: when the loaded
  candidate table is empty, the endpoint answers with the error body
  \<^verbatim>\<open>No data available\<close> and status 500; when it is not empty and has one \<^verbatim>\<open>MIT Name\<close>
  column, and no row's name equals the given name, the endpoint answers with the error
  body \<^verbatim>\<open>Candidate not found\<close> and status 404. The score generator is not touched in
  either case.
\<close>

theorem candidate_profile_not_found:
  assumes "load_data w = Inr (df, src)"
  shows "(df_empty df
            \<longrightarrow> get_candidate_profile w L name g = ((ErrorBody ''No data available'', 500), g))
       \<and> (\<not> df_empty df \<and> column df ''MIT Name'' = Inr names \<and> StrC name \<notin> set names
            \<longrightarrow> get_candidate_profile w L name g = ((ErrorBody ''Candidate not found'', 404), g))"
proof (intro conjI impI)
  assume "df_empty df"
  with assms show "get_candidate_profile w L name g = ((ErrorBody ''No data available'', 500), g)"
    by (simp add: get_candidate_profile_def)
next
  assume h: "\<not> df_empty df \<and> column df ''MIT Name'' = Inr names \<and> StrC name \<notin> set names"
  then obtain i where i: "lookup (columns df) ''MIT Name'' = Unique i"
    and n: "names = map (\<lambda>r. cell_at r i) (rows df)"
    by (auto simp add: column_def split: label_pos.splits)
  from h n have "StrC name \<notin> (\<lambda>r. cell_at r i) ` set (rows df)"
    by simp
  then have "\<forall>r\<in>set (rows df). \<not> (cell_at r i = StrC name)"
    by force
  then have "filter fst (zip (map (\<lambda>r. cell_at r i = StrC name) (rows df)) (rows df)) = []"
    by (rule filter_mask_none)
  then have "df_empty (select (map (\<lambda>r. cell_at r i = StrC name) (rows df)) df)"
    by (simp add: select_def df_empty_def)
  with assms h i
  show "get_candidate_profile w L name g = ((ErrorBody ''Candidate not found'', 404), g)"
    by (simp add: get_candidate_profile_def Let_def)
qed

theorem candidate_profile_not_found_witness:
  "load_data sample_env = Inr (sample_df, ''Google Sheets'')
   \<and> \<not> df_empty sample_df
   \<and> column sample_df ''MIT Name'' = Inr [StrC ''Ann'', StrC ''Bob'', StrC ''Cy'', StrC ''Di'']
   \<and> StrC ''Zed'' \<notin> set [StrC ''Ann'', StrC ''Bob'', StrC ''Cy'', StrC ''Di'']
   \<and> get_candidate_profile sample_env
        \<lparr>md5_hexdigest = (\<lambda>s. ''00c0ffee00c0ffee00c0ffee00c0ffee''),
         seed_int = (\<lambda>n. n),
         randbelow = (\<lambda>n s. (0, s + 1))\<rparr>
        ''Zed''
        \<lparr>gen = (42::int), os_seeds = (\<lambda>k. 7), os_reads = 0\<rparr>
     = ((ErrorBody ''Candidate not found'', 404),
        \<lparr>gen = (42::int), os_seeds = (\<lambda>k. 7), os_reads = 0\<rparr>)
   \<and> load_data \<lparr>read_main = Inl (FetchError ''timed out''),
                read_jobs = Inl (FetchError ''timed out''),
                py_str = (\<lambda>c. ''nan''),
                type_name = (\<lambda>c. ''int64'')\<rparr> = Inr (empty_frame, ''Error'')
   \<and> df_empty empty_frame
   \<and> get_candidate_profile
        \<lparr>read_main = Inl (FetchError ''timed out''),
         read_jobs = Inl (FetchError ''timed out''),
         py_str = (\<lambda>c. ''nan''),
         type_name = (\<lambda>c. ''int64'')\<rparr>
        \<lparr>md5_hexdigest = (\<lambda>s. ''00c0ffee00c0ffee00c0ffee00c0ffee''),
         seed_int = (\<lambda>n. n),
         randbelow = (\<lambda>n s. (0, s + 1))\<rparr>
        ''Zed''
        \<lparr>gen = (42::int), os_seeds = (\<lambda>k. 7), os_reads = 0\<rparr>
     = ((ErrorBody ''No data available'', 500),
        \<lparr>gen = (42::int), os_seeds = (\<lambda>k. 7), os_reads = 0\<rparr>)"
proof -
  let ?w = "\<lparr>read_main = Inl (FetchError ''timed out''),
             read_jobs = Inl (FetchError ''timed out''),
             py_str = (\<lambda>c. ''nan''),
             type_name = (\<lambda>c. ''int64'')\<rparr>"
  have n: "StrC ''Zed'' \<notin> set [StrC ''Ann'', StrC ''Bob'', StrC ''Cy'', StrC ''Di'']"
    by simp
  have l: "load_data ?w = Inr (empty_frame, ''Error'')"
    by (simp add: load_data_def)
  have e: "df_empty empty_frame"
    by (simp add: df_empty_def empty_frame_def)
  let ?L = "\<lparr>md5_hexdigest = (\<lambda>s. ''00c0ffee00c0ffee00c0ffee00c0ffee''),
             seed_int = (\<lambda>n. n),
             randbelow = (\<lambda>n s. (0, s + 1))\<rparr>"
  let ?g = "\<lparr>gen = (42::int), os_seeds = (\<lambda>k. 7), os_reads = 0\<rparr>"
  from candidate_profile_not_found [OF sample_load, where name = "''Zed''"
      and names = "[StrC ''Ann'', StrC ''Bob'', StrC ''Cy'', StrC ''Di'']"
      and L = ?L and g = ?g]
    candidate_profile_not_found [OF l, where name = "''Zed''" and L = ?L and g = ?g]
    sample_load sample_nonempty sample_names n l e
  show ?thesis by simp
qed

section \<open>Properties of the open positions endpoint\<close>

lemma pad_id: "length r = n \<Longrightarrow> pad n r = r"
  by (simp add: pad_def)

lemma pad_length: "length (pad n r) = n"
  by (auto simp add: pad_def)

lemma cell_at_pad:
  assumes "i < n"
  shows "cell_at (pad n r) i = cell_at r i"
proof -
  from assms have "pad n r ! i = (r @ replicate (n - length r) (FloatC NaN)) ! i"
    by (simp only: pad_def nth_take)
  also from assms have "\<dots> = (if i < length r then r ! i else FloatC NaN)"
    by (simp add: nth_append)
  finally show ?thesis
    using assms by (simp add: cell_at_def pad_length)
qed

lemma keep_length:
  "length xs = length ys
   \<Longrightarrow> length (filter (\<lambda>p. P (fst p)) (zip xs ys)) = length (filter P xs)"
  by (induction xs ys rule: list_induct2) auto

lemma zip_filter_fst:
  "length xs = length ys
   \<Longrightarrow> zip (filter P xs) (map snd (filter (\<lambda>p. P (fst p)) (zip xs ys)))
       = filter (\<lambda>p. P (fst p)) (zip xs ys)"
  by (induction xs ys rule: list_induct2) auto

lemma index_filter:
  "length xs = length ys \<Longrightarrow> P x \<Longrightarrow> index_of x xs = Some i
   \<Longrightarrow> \<exists>k. index_of x (filter P xs) = Some k
         \<and> map snd (filter (\<lambda>p. P (fst p)) (zip xs ys)) ! k = ys ! i"
proof (induction xs ys arbitrary: i rule: list_induct2)
  case Nil
  then show ?case by simp
next
  case (Cons a xs b ys)
  show ?case
  proof (cases "x = a")
    case True
    with Cons.prems show ?thesis by simp
  next
    case False
    with Cons.prems obtain i0 where i0: "index_of x xs = Some i0" and i: "i = Suc i0"
      by auto
    from Cons.IH [OF Cons.prems(1) i0] obtain k
      where k: "index_of x (filter P xs) = Some k"
        and v: "map snd (filter (\<lambda>p. P (fst p)) (zip xs ys)) ! k = ys ! i0"
      by blast
    from False k v i show ?thesis by simp
  qed
qed

text \<open>Dropping columns in two steps is dropping them in one.\<close>

lemma keep_columns_twice:
  "keep_columns Q (keep_columns P df) = keep_columns (\<lambda>c. P c \<and> Q c) df"
proof -
  have "map snd (filter (\<lambda>p. Q (fst p))
          (zip (filter P (columns df))
             (pad (length (filter P (columns df)))
                (map snd (filter (\<lambda>p. P (fst p)) (zip (columns df) ys))))))
        = map snd (filter (\<lambda>p. P (fst p) \<and> Q (fst p)) (zip (columns df) ys))"
    if "length (columns df) = length ys" for ys
    using that by (simp add: pad_id keep_length zip_filter_fst)
  then show ?thesis
    by (simp add: keep_columns_def pad_length)
qed

text \<open>
  The jobs table as loaded: the labels of the sheet that are not extraneous, and the
  posted rows of the sheet, cut to these columns, with the empty string in the place
  of every missing cell.
\<close>

lemma load_jobs_shape:
  assumes "read_jobs w = Inr j"
  shows "columns (load_jobs_data w) = filter (\<lambda>c. \<not> dropped_label c) (columns j)"
    and "rows (load_jobs_data w)
         = map (\<lambda>r. map (\<lambda>c. if isna c then StrC [] else c) (kept_cells j r)) (posted_rows j)"
proof -
  have k: "keep_columns (\<lambda>c. c \<notin> set [''JV Link'', ''JV ID''])
             (keep_columns (\<lambda>c. \<not> starts_with ''Unnamed'' c) j)
           = \<lparr>columns = filter (\<lambda>c. \<not> dropped_label c) (columns j),
              rows = map (kept_cells j) (rows j)\<rparr>"
    unfolding keep_columns_twice
    by (simp add: keep_columns_def kept_cells_def dropped_label_def)
  from assms have l: "load_jobs_data w
      = fillna_empty (dropna_all
          (keep_columns (\<lambda>c. c \<notin> set [''JV Link'', ''JV ID''])
             (keep_columns (\<lambda>c. \<not> starts_with ''Unnamed'' c) j)))"
    by (simp add: load_jobs_data_def)
  show "columns (load_jobs_data w) = filter (\<lambda>c. \<not> dropped_label c) (columns j)"
    unfolding l k by (simp add: fillna_empty_def dropna_all_def)
  show "rows (load_jobs_data w)
         = map (\<lambda>r. map (\<lambda>c. if isna c then StrC [] else c) (kept_cells j r)) (posted_rows j)"
    unfolding l k
    by (simp add: fillna_empty_def dropna_all_def posted_rows_def filter_map comp_def)
qed

lemma kept_cells_length:
  "length (kept_cells j r) = length (filter (\<lambda>c. \<not> dropped_label c) (columns j))"
  using keep_length [of "columns j" "pad (length (columns j)) r" "\<lambda>c. \<not> dropped_label c"]
  by (simp add: kept_cells_def pad_length)

text \<open>What a dtype can make of a cell that the encoder takes.\<close>

lemma as_dtype_json:
  "json_ok (as_dtype d c)
   \<Longrightarrow> as_dtype d c = c \<or> (\<exists>n. c = IntC n \<and> as_dtype d c = FloatC (int64_as_float n))"
  by (cases d; cases c) (simp_all add: as_dtype_def)

lemma as_dtype_str: "as_dtype d (StrC s) = StrC s"
  by (cases d) (simp_all add: as_dtype_def)

text \<open>One field of one posting, read from the loaded row by \<^verbatim>\<open>row.get\<close>.\<close>

lemma kept_field:
  assumes "\<not> dropped_label name"
    and "json_ok (row_get (filter (\<lambda>c. \<not> dropped_label c) (columns j))
                   (map (as_dtype d) (map (\<lambda>c. if isna c then StrC [] else c) (kept_cells j r)))
                   name placeholder)"
  shows "(let c = source_cell j r name;
              v = row_get (filter (\<lambda>c. \<not> dropped_label c) (columns j))
                    (map (as_dtype d) (map (\<lambda>c. if isna c then StrC [] else c) (kept_cells j r)))
                    name placeholder
          in if name \<notin> set (columns j) then v = placeholder
             else if isna c then v = StrC []
             else v = c \<or> (\<exists>n. c = IntC n \<and> v = FloatC (int64_as_float n)))"
proof (cases "name \<in> set (columns j)")
  case False
  then have "lookup (filter (\<lambda>c. \<not> dropped_label c) (columns j)) name = Absent"
    by (simp add: lookup_absent)
  with False show ?thesis
    by (simp add: row_get_def)
next
  case True
  let ?cols = "filter (\<lambda>c. \<not> dropped_label c) (columns j)"
  let ?fill = "\<lambda>c. if isna c then StrC [] else c"
  let ?row = "map (as_dtype d) (map ?fill (kept_cells j r))"
  let ?ys = "pad (length (columns j)) r"
  from index_of_Some [OF True] obtain i where i: "index_of name (columns j) = Some i"
    by blast
  from index_of_less [OF i] have il: "i < length (columns j)" .
  have "length (columns j) = length ?ys"
    by (simp add: pad_length)
  from index_filter [OF this, of "\<lambda>c. \<not> dropped_label c" name i] assms(1) i
  obtain k where k: "index_of name ?cols = Some k" and v: "kept_cells j r ! k = ?ys ! i"
    by (auto simp add: kept_cells_def)
  from index_of_less [OF k] have kl: "k < length (kept_cells j r)"
    by (simp add: kept_cells_length)
  from il have "?ys ! i = cell_at ?ys i"
    by (simp add: cell_at_def pad_length)
  also from il have "\<dots> = cell_at r i"
    by (rule cell_at_pad)
  also from i have "\<dots> = source_cell j r name"
    by (simp add: source_cell_def)
  finally have src: "kept_cells j r ! k = source_cell j r name"
    using v by simp
  have u: "lookup ?cols name = Unique k"
  proof (rule ccontr)
    assume "lookup ?cols name \<noteq> Unique k"
    with k have "lookup ?cols name = Repeated"
      by (simp add: lookup_def split: if_splits)
    with assms(2) show False
      by (simp add: row_get_def)
  qed
  from u kl src have g: "row_get ?cols ?row name placeholder
      = as_dtype d (?fill (source_cell j r name))"
    by (simp add: row_get_def cell_at_def)
  show ?thesis
  proof (cases "isna (source_cell j r name)")
    case True
    with g \<open>name \<in> set (columns j)\<close> show ?thesis
      by (simp add: as_dtype_str)
  next
    case False
    with g have e: "row_get ?cols ?row name placeholder = as_dtype d (source_cell j r name)"
      by simp
    from assms(2) have "json_ok (as_dtype d (source_cell j r name))"
      unfolding e .
    from as_dtype_json [OF this] False \<open>name \<in> set (columns j)\<close> show ?thesis
      unfolding Let_def e by simp
  qed
qed

lemma jsonify_values_ok: "jsonify_values w vs = Inr () \<Longrightarrow> \<forall>c\<in>set vs. json_ok c"
  by (auto simp add: jsonify_values_def find_None_iff split: option.splits)

lemma sample_positions:
  "get_open_positions sample_env
   = (PositionsBody
        [\<lparr>job_title = StrC ''Engineer'', account = StrC [], city = placeholder,
          state = placeholder, vertical = placeholder, salary = placeholder\<rparr>], 200)"
  by code_simp

lemma sample_posted_rows:
  "posted_rows \<lparr>columns = [''Job Title'', ''Unnamed: 1'', ''Account'', ''JV ID''],
                rows = [[StrC ''Engineer'', FloatC NaN, FloatC NaN, IntC 17],
                        [FloatC NaN, FloatC NaN, FloatC NaN, FloatC NaN]]\<rparr>
   = [[StrC ''Engineer'', FloatC NaN, FloatC NaN, IntC 17]]"
  by code_simp

text \<open>
  Claim C9, as stated: a job-posting field whose value is absent in the source table is
  returned as the placeholder. It is not for a blank cell of a column that is there:
  the loader's \<^verbatim>\<open>fillna("")\<close> makes it the empty string, and the placeholder default
  of \<^verbatim>\<open>row.get\<close> applies only to a column that is absent.
\<close>

theorem open_positions_blank_cell_counterexample:
  "get_open_positions
     \<lparr>read_main = Inl (FetchError ''timed out''),
      read_jobs = Inr \<lparr>columns = [''Job Title'', ''Account''],
                        rows = [[StrC ''Engineer'', FloatC NaN]]\<rparr>,
      py_str = (\<lambda>c. ''nan''),
      type_name = (\<lambda>c. ''int64'')\<rparr>
   = (PositionsBody
        [\<lparr>job_title = StrC ''Engineer'', account = StrC [], city = placeholder,
          state = placeholder, vertical = placeholder, salary = placeholder\<rparr>], 200)
   \<and> StrC [] \<noteq> placeholder"
  by code_simp

text \<open>
  Claim C9, amended. In every \<^verbatim>\<open>GET /api/open-positions\<close> response that is a list of
  postings, there is one posting for each posted row of the jobs sheet, in the order of
  the sheet, and each of its fields (job_title, account, city, state, vertical, salary)
  is: the placeholder when the sheet has no column for the field; the empty string, and
  not the placeholder, when the sheet has the column and the cell of the row is
  missing; and otherwise the cell of the row, an integer possibly as the float that the
  table holds for it.
\<close>

theorem open_positions_fields:
  assumes "read_jobs w = Inr j"
    and "get_open_positions w = (PositionsBody ps, code)"
  shows "length ps = length (posted_rows j)
       \<and> (\<forall>k<length ps. \<forall>(name, field)\<in>set job_fields.
            (let c = source_cell j (posted_rows j ! k) name; v = field (ps ! k)
             in if name \<notin> set (columns j) then v = placeholder
                else if isna c then v = StrC []
                else v = c \<or> (\<exists>n. c = IntC n \<and> v = FloatC (int64_as_float n))))"
proof -
  let ?jobs = "load_jobs_data w"
  let ?cols = "filter (\<lambda>c. \<not> dropped_label c) (columns j)"
  let ?d = "common_dtype (dtypes ?jobs)"
  let ?row = "\<lambda>r. map (as_dtype ?d) (map (\<lambda>c. if isna c then StrC [] else c) (kept_cells j r))"
  let ?positions = "map (\<lambda>r. position_of_row ?cols (?row r)) (posted_rows j)"
  note shape = load_jobs_shape [OF assms(1)]
  have it: "iterrows ?d ?jobs = map ?row (posted_rows j)"
    by (simp add: iterrows_def shape pad_id kept_cells_length comp_def)
  show ?thesis
  proof (cases "df_empty ?jobs")
    case True
    with assms(2) have ps: "ps = []"
      by (simp add: get_open_positions_def)
    have "posted_rows j = []"
    proof (cases "?cols = []")
      case True
      then have "kept_cells j r = []" for r
        using kept_cells_length [of j r] by simp
      then show ?thesis
        by (simp add: posted_rows_def)
    next
      case False
      with \<open>df_empty ?jobs\<close> show ?thesis
        by (simp add: df_empty_def shape)
    qed
    with ps show ?thesis by simp
  next
    case False
    with assms(2) it have js: "jsonify_values w (concat (map position_values ?positions)) = Inr ()"
      and ps: "ps = ?positions"
      by (auto simp add: get_open_positions_def Let_def shape catch_all_def bind_exc_def comp_def
            split: sum.splits)
    from jsonify_values_ok [OF js]
    have ok: "\<forall>p\<in>set ?positions. \<forall>c\<in>set (position_values p). json_ok c"
      by simp
    have fields: "\<forall>(name, field)\<in>set job_fields.
            (let c = source_cell j r name; v = field (position_of_row ?cols (?row r))
             in if name \<notin> set (columns j) then v = placeholder
                else if isna c then v = StrC []
                else v = c \<or> (\<exists>n. c = IntC n \<and> v = FloatC (int64_as_float n)))"
      if r: "r \<in> set (posted_rows j)" for r
    proof -
      from ok r have "\<forall>c\<in>set (position_values (position_of_row ?cols (?row r))). json_ok c"
        by simp
      then have o: "json_ok (row_get ?cols (?row r) ''Job Title'' placeholder)"
          "json_ok (row_get ?cols (?row r) ''Account'' placeholder)"
          "json_ok (row_get ?cols (?row r) ''City'' placeholder)"
          "json_ok (row_get ?cols (?row r) ''State'' placeholder)"
          "json_ok (row_get ?cols (?row r) ''VERT'' placeholder)"
          "json_ok (row_get ?cols (?row r) ''Salary'' placeholder)"
        by (simp_all add: position_values_def position_of_row_def)
      have n: "\<not> dropped_label ''Job Title''" "\<not> dropped_label ''Account''"
          "\<not> dropped_label ''City''" "\<not> dropped_label ''State''"
          "\<not> dropped_label ''VERT''" "\<not> dropped_label ''Salary''"
        by (simp_all add: dropped_label_def starts_with_def)
      from kept_field [OF n(1) o(1)] kept_field [OF n(2) o(2)] kept_field [OF n(3) o(3)]
        kept_field [OF n(4) o(4)] kept_field [OF n(5) o(5)] kept_field [OF n(6) o(6)]
      show ?thesis
        unfolding job_fields_def position_of_row_def by simp
    qed
    have "length ps = length (posted_rows j)"
      by (simp add: ps)
    moreover have "\<forall>(name, field)\<in>set job_fields.
            (let c = source_cell j (posted_rows j ! k) name; v = field (ps ! k)
             in if name \<notin> set (columns j) then v = placeholder
                else if isna c then v = StrC []
                else v = c \<or> (\<exists>n. c = IntC n \<and> v = FloatC (int64_as_float n)))"
      if k: "k < length ps" for k
    proof -
      from k have kk: "k < length (posted_rows j)" by (simp add: ps)
      then have "posted_rows j ! k \<in> set (posted_rows j)" by simp
      from fields [OF this] kk show ?thesis
        by (simp add: ps)
    qed
    ultimately show ?thesis by blast
  qed
qed

theorem open_positions_fields_witness:
  "read_jobs sample_env
   = Inr \<lparr>columns = [''Job Title'', ''Unnamed: 1'', ''Account'', ''JV ID''],
          rows = [[StrC ''Engineer'', FloatC NaN, FloatC NaN, IntC 17],
                  [FloatC NaN, FloatC NaN, FloatC NaN, FloatC NaN]]\<rparr>
   \<and> get_open_positions sample_env
     = (PositionsBody
          [\<lparr>job_title = StrC ''Engineer'', account = StrC [], city = placeholder,
            state = placeholder, vertical = placeholder, salary = placeholder\<rparr>], 200)
   \<and> posted_rows \<lparr>columns = [''Job Title'', ''Unnamed: 1'', ''Account'', ''JV ID''],
                  rows = [[StrC ''Engineer'', FloatC NaN, FloatC NaN, IntC 17],
                          [FloatC NaN, FloatC NaN, FloatC NaN, FloatC NaN]]\<rparr>
     = [[StrC ''Engineer'', FloatC NaN, FloatC NaN, IntC 17]]
   \<and> (0::nat) < length
        [\<lparr>job_title = StrC ''Engineer'', account = StrC [], city = placeholder,
          state = placeholder, vertical = placeholder, salary = placeholder\<rparr>]
   \<and> (''Account'', account) \<in> set job_fields
   \<and> (''City'', city) \<in> set job_fields
   \<and> (''Job Title'', job_title) \<in> set job_fields
   \<and> ''City'' \<notin> set [''Job Title'', ''Unnamed: 1'', ''Account'', ''JV ID'']
   \<and> ''Account'' \<in> set [''Job Title'', ''Unnamed: 1'', ''Account'', ''JV ID'']
   \<and> isna (source_cell \<lparr>columns = [''Job Title'', ''Unnamed: 1'', ''Account'', ''JV ID''],
                         rows = [[StrC ''Engineer'', FloatC NaN, FloatC NaN, IntC 17],
                                 [FloatC NaN, FloatC NaN, FloatC NaN, FloatC NaN]]\<rparr>
             [StrC ''Engineer'', FloatC NaN, FloatC NaN, IntC 17] ''Account'')
   \<and> \<not> isna (source_cell \<lparr>columns = [''Job Title'', ''Unnamed: 1'', ''Account'', ''JV ID''],
                         rows = [[StrC ''Engineer'', FloatC NaN, FloatC NaN, IntC 17],
                                 [FloatC NaN, FloatC NaN, FloatC NaN, FloatC NaN]]\<rparr>
             [StrC ''Engineer'', FloatC NaN, FloatC NaN, IntC 17] ''Job Title'')
   \<and> length
        [\<lparr>job_title = StrC ''Engineer'', account = StrC [], city = placeholder,
          state = placeholder, vertical = placeholder, salary = placeholder\<rparr>]
     = length (posted_rows \<lparr>columns = [''Job Title'', ''Unnamed: 1'', ''Account'', ''JV ID''],
                  rows = [[StrC ''Engineer'', FloatC NaN, FloatC NaN, IntC 17],
                          [FloatC NaN, FloatC NaN, FloatC NaN, FloatC NaN]]\<rparr>)"
proof -
  let ?j = "\<lparr>columns = [''Job Title'', ''Unnamed: 1'', ''Account'', ''JV ID''],
             rows = [[StrC ''Engineer'', FloatC NaN, FloatC NaN, IntC 17],
                     [FloatC NaN, FloatC NaN, FloatC NaN, FloatC NaN]]\<rparr>"
  have a: "read_jobs sample_env = Inr ?j"
    by (simp add: sample_env_def)
  have c: "isna (source_cell ?j [StrC ''Engineer'', FloatC NaN, FloatC NaN, IntC 17] ''Account'')"
    "\<not> isna (source_cell ?j [StrC ''Engineer'', FloatC NaN, FloatC NaN, IntC 17] ''Job Title'')"
    by (simp_all add: source_cell_def cell_at_def)
  have f: "(''Account'', account) \<in> set job_fields" "(''City'', city) \<in> set job_fields"
    "(''Job Title'', job_title) \<in> set job_fields"
    by (simp_all add: job_fields_def)
  from open_positions_fields [OF a sample_positions] a sample_positions sample_posted_rows c f
  show ?thesis
    by simp
qed


end
